theory Spec2Isabelle
  imports Complex_Main
begin

section \<open>Calendar dates and JavaScript Date arithmetic\<close>

text \<open>
  The record store keeps dates as ISO strings \<^verbatim>\<open>YYYY-MM-DD\<close>; the handlers turn them
  into \<^verbatim>\<open>Date\<close> objects with \<^verbatim>\<open>new Date(s)\<close>, move them with \<^verbatim>\<open>setMonth\<close>,
  \<^verbatim>\<open>setFullYear\<close> and \<^verbatim>\<open>setDate\<close>, compare them with \<^verbatim>\<open><\<close>, \<^verbatim>\<open>>\<close>, \<^verbatim>\<open>>=\<close> and print
  them back with \<^verbatim>\<open>toISOString().split("T")[0]\<close>.

  A date string is modelled by its three numbers (year, month, day) as written. A
  \<^verbatim>\<open>Date\<close> object is modelled by the UTC calendar date of its time value and the
  milliseconds elapsed since UTC midnight of that date.
\<close>

record date =
  d_year :: int
  d_month :: nat
  d_day :: nat

record instant =
  i_date :: date
  i_ms :: nat

definition date_lt :: "date \<Rightarrow> date \<Rightarrow> bool" where
  "date_lt a b =
     (d_year a < d_year b \<or>
      (d_year a = d_year b \<and>
       (d_month a < d_month b \<or> (d_month a = d_month b \<and> d_day a < d_day b))))"

text \<open>\<^verbatim>\<open>a < b\<close> on two Date objects compares their time values.\<close>

definition instant_lt :: "instant \<Rightarrow> instant \<Rightarrow> bool" where
  "instant_lt a b =
     (date_lt (i_date a) (i_date b) \<or> (i_date a = i_date b \<and> i_ms a < i_ms b))"

definition leap_year :: "int \<Rightarrow> bool" where
  "leap_year y = (y mod 4 = 0 \<and> (y mod 400 = 0 \<or> y mod 100 \<noteq> 0))"

definition days_in_month :: "int \<Rightarrow> nat \<Rightarrow> nat" where
  "days_in_month y m =
     (if m = 2 then (if leap_year y then 29 else 28)
      else if m = 4 \<or> m = 6 \<or> m = 9 \<or> m = 11 then 30
      else 31)"

text \<open>
  ECMAScript's \<^verbatim>\<open>MakeDay(year, month, date)\<close>, which the parser and every setter go
  through: the month index \<open>m0\<close> (0-based, any integer) is folded into the year, and the
  day of month counts on from the first of that month, so a day the month does not have
  runs over into the next month. The callers below pass a day of at most 32, which runs
  over by at most one month.
\<close>

definition make_date :: "int \<Rightarrow> int \<Rightarrow> nat \<Rightarrow> date" where
  "make_date y m0 d =
     (let y' = y + m0 div 12;
          m' = nat (m0 mod 12) + 1;
          n = days_in_month y' m'
      in if d \<le> n then \<lparr>d_year = y', d_month = m', d_day = d\<rparr>
         else if m' = 12 then \<lparr>d_year = y' + 1, d_month = 1, d_day = d - n\<rparr>
         else \<lparr>d_year = y', d_month = m' + 1, d_day = d - n\<rparr>)"

text \<open>
  The engine's date parser accepts a \<^verbatim>\<open>YYYY-MM-DD\<close> string whose month is 1 to 12 and
  whose day is 1 to 31, whatever the month; any other gives an Invalid Date.
\<close>

definition parses :: "date \<Rightarrow> bool" where
  "parses d = (1 \<le> d_month d \<and> d_month d \<le> 12 \<and> 1 \<le> d_day d \<and> d_day d \<le> 31)"

text \<open>
  \<^verbatim>\<open>new Date("YYYY-MM-DD")\<close> for a string that parses: UTC midnight of the day, and a day
  the month lacks runs over (\<^verbatim>\<open>2025-02-30\<close> is read as 2 March 2025). The two handlers
  that read a date string nobody has read before them, the window of a Property in the
  rental request and the requested end date in the termination request, are modelled with
  what they do on a string that does not parse; in the other handlers the dates stored
  with a Rental are taken to parse.
\<close>

definition new_Date :: "date \<Rightarrow> instant" where
  "new_Date d = \<lparr>i_date = make_date (d_year d) (int (d_month d) - 1) (d_day d), i_ms = 0\<rparr>"

text \<open>\<^verbatim>\<open>x.toISOString().split("T")[0]\<close>\<close>

definition toISODate :: "instant \<Rightarrow> date" where
  "toISODate x = i_date x"

subsection \<open>The server's time zone\<close>

text \<open>
  The getters and setters of \<^verbatim>\<open>Date\<close> work on local time: they read the time value
  through ECMAScript's \<^verbatim>\<open>LocalTime\<close> and write it back through \<^verbatim>\<open>UTC\<close>. Both depend on
  the zone rules of the host, so the model takes them as a parameter: \<open>LocalTime z t\<close> has
  the calendar fields of the wall clock at \<open>t\<close>, and \<open>UTC z\<close> maps wall-clock fields back.
\<close>

record zone =
  LocalTime :: "instant \<Rightarrow> instant"
  UTC :: "instant \<Rightarrow> instant"

text \<open>\<^verbatim>\<open>x.getFullYear()\<close> and \<^verbatim>\<open>x.getMonth()\<close> (0-based)\<close>

definition getFullYear :: "zone \<Rightarrow> instant \<Rightarrow> int" where
  "getFullYear z x = d_year (i_date (LocalTime z x))"

definition getMonth :: "zone \<Rightarrow> instant \<Rightarrow> int" where
  "getMonth z x = int (d_month (i_date (LocalTime z x))) - 1"

text \<open>\<^verbatim>\<open>x.setMonth(x.getMonth() + k)\<close>\<close>

definition setMonth_plus :: "zone \<Rightarrow> instant \<Rightarrow> int \<Rightarrow> instant" where
  "setMonth_plus z x k =
     (let t = LocalTime z x
      in UTC z (t\<lparr>i_date := make_date (d_year (i_date t)) (int (d_month (i_date t)) - 1 + k)
                              (d_day (i_date t))\<rparr>))"

text \<open>\<^verbatim>\<open>x.setFullYear(x.getFullYear() + k)\<close>\<close>

definition setFullYear_plus :: "zone \<Rightarrow> instant \<Rightarrow> int \<Rightarrow> instant" where
  "setFullYear_plus z x k =
     (let t = LocalTime z x
      in UTC z (t\<lparr>i_date := make_date (d_year (i_date t) + k) (int (d_month (i_date t)) - 1)
                              (d_day (i_date t))\<rparr>))"

text \<open>\<^verbatim>\<open>x.setDate(x.getDate() + 1)\<close>\<close>

definition setDate_plus1 :: "zone \<Rightarrow> instant \<Rightarrow> instant" where
  "setDate_plus1 z x =
     (let t = LocalTime z x
      in UTC z (t\<lparr>i_date := make_date (d_year (i_date t)) (int (d_month (i_date t)) - 1)
                              (d_day (i_date t) + 1)\<rparr>))"

text \<open>
  \<^verbatim>\<open>(end.getFullYear() - start.getFullYear()) * 12 + (end.getMonth() - start.getMonth())\<close>
  on \<^verbatim>\<open>start = new Date(s)\<close> and \<^verbatim>\<open>end = new Date(e)\<close>
\<close>

definition monthsDiff :: "zone \<Rightarrow> date \<Rightarrow> date \<Rightarrow> int" where
  "monthsDiff z s e =
     (getFullYear z (new_Date e) - getFullYear z (new_Date s)) * 12 +
     (getMonth z (new_Date e) - getMonth z (new_Date s))"

subsection \<open>Zones at a fixed offset from UTC\<close>

text \<open>
  A zone without daylight saving, \<open>minutes\<close> east of UTC (less than a day either way):
  UTC itself is \<open>fixed_zone 0\<close>, Asia/Dhaka is \<open>fixed_zone 360\<close>, UTC-5 is
  \<open>fixed_zone (- 300)\<close>.
\<close>

definition next_day :: "date \<Rightarrow> date" where
  "next_day d = make_date (d_year d) (int (d_month d) - 1) (d_day d + 1)"

definition prev_day :: "date \<Rightarrow> date" where
  "prev_day d =
     (if 1 < d_day d then d\<lparr>d_day := d_day d - 1\<rparr>
      else (let m0 = int (d_month d) - 2;
                y' = d_year d + m0 div 12;
                m' = nat (m0 mod 12) + 1
            in \<lparr>d_year = y', d_month = m', d_day = days_in_month y' m'\<rparr>))"

definition plus_ms :: "instant \<Rightarrow> int \<Rightarrow> instant" where
  "plus_ms t k =
     (let m = int (i_ms t) + k
      in if m < 0 then \<lparr>i_date = prev_day (i_date t), i_ms = nat (m + 86400000)\<rparr>
         else if 86400000 \<le> m then \<lparr>i_date = next_day (i_date t), i_ms = nat (m - 86400000)\<rparr>
         else \<lparr>i_date = i_date t, i_ms = nat m\<rparr>)"

definition fixed_zone :: "int \<Rightarrow> zone" where
  "fixed_zone minutes =
     \<lparr>LocalTime = (\<lambda>t. plus_ms t (minutes * 60000)),
      UTC = (\<lambda>t. plus_ms t (- (minutes * 60000)))\<rparr>"

section \<open>Data model (src/types/index.ts)\<close>

datatype RentalStatus = Active | Pending | Completed | Cancelled | RenewalPending | Terminating

datatype PaymentStatus = Paid | PaymentPending | Overdue | Failed

datatype RequestStatus = RequestPending | Approved | Rejected

record User =
  u_id :: string
  u_name :: string
  u_email :: string
  u_role :: string

record Property =
  p_id :: string
  p_ownerId :: string
  p_address :: string
  p_rent :: int
  p_available :: bool
  p_startDate :: "date option"
  p_endDate :: "date option"

record Rental =
  r_id :: string
  r_tenantId :: string
  r_landlordId :: string
  r_propertyId :: string
  r_startDate :: date
  r_endDate :: "date option"
  r_status :: RentalStatus
  r_monthlyRent :: int
  r_createdAt :: instant

record Payment =
  pay_id :: string
  pay_rentalId :: string
  pay_amount :: int
  pay_month :: string
  pay_status :: PaymentStatus
  pay_timestamp :: instant
  pay_method :: string

record RentalTermination =
  t_id :: string
  t_rentalId :: string
  t_tenantId :: string
  t_landlordId :: string
  t_requestedEndDate :: date
  t_reason :: string
  t_status :: RequestStatus
  t_createdAt :: instant
  t_updatedAt :: instant

record RentalRenewal =
  rn_id :: string
  rn_rentalId :: string
  rn_tenantId :: string
  rn_landlordId :: string
  rn_renewalDuration :: int
  rn_requestedStartDate :: date
  rn_status :: RequestStatus
  rn_createdAt :: instant
  rn_updatedAt :: instant

text \<open>
  The record store: one list per JSON file the handlers below read and write
  (\<^verbatim>\<open>users.json\<close>, \<^verbatim>\<open>properties.json\<close>, \<^verbatim>\<open>rentals.json\<close>, \<^verbatim>\<open>payments.json\<close>,
  \<^verbatim>\<open>rental_terminations.json\<close>, \<^verbatim>\<open>rental_renewals.json\<close>).
\<close>

record db =
  users :: "User list"
  properties :: "Property list"
  rentals :: "Rental list"
  payments :: "Payment list"
  terminations :: "RentalTermination list"
  renewals :: "RentalRenewal list"

section \<open>Record store helpers (src/utils/jsonDb.ts)\<close>

text \<open>\<^verbatim>\<open>data.find((item) => item.id === id)\<close>: the first record with that id.\<close>

definition findById :: "('a \<Rightarrow> string) \<Rightarrow> 'a list \<Rightarrow> string \<Rightarrow> 'a option" where
  "findById idf data i = find (\<lambda>item. idf item = i) data"

text \<open>
  \<^verbatim>\<open>data.map((item) => (item.id === id ? { ...item, ...updates } : item))\<close>: every record
  with that id is updated.
\<close>

definition updateById :: "('a \<Rightarrow> string) \<Rightarrow> 'a list \<Rightarrow> string \<Rightarrow> ('a \<Rightarrow> 'a) \<Rightarrow> 'a list" where
  "updateById idf data i updates = map (\<lambda>item. if idf item = i then updates item else item) data"

text \<open>
  \<^verbatim>\<open>const k = xs.findIndex(pred); if (k !== -1) { xs[k].field = ... }\<close>: the first
  record that satisfies the predicate is changed in place, the others are left alone.
\<close>

fun update_first :: "('a \<Rightarrow> bool) \<Rightarrow> ('a \<Rightarrow> 'a) \<Rightarrow> 'a list \<Rightarrow> 'a list" where
  "update_first pred f [] = []"
| "update_first pred f (x # xs) = (if pred x then f x # xs else x # update_first pred f xs)"

section \<open>Callers and responses\<close>

text \<open>
  The bearer credential of a request: the Authorization header is missing or is not a
  bearer token; \<^verbatim>\<open>parseToken\<close> returns null; or it returns the user id and the role.
\<close>

datatype credential = NoBearer | Unparsable | Token string string

text \<open>
  One constructor per failure response of the handlers (\<^verbatim>\<open>success: false\<close>), with the
  HTTP status the handler gives it.
\<close>

datatype error =
    Unauthorized
  | WrongRole
  | MissingInput
  | InvalidAction
  | InvalidMonthFormat
  | AmountNotPositive
  | InvalidRenewalDuration
  | PropertyNotFound
  | RentalNotFound
  | TerminationNotFound
  | NotYourProperty
  | NotYourRental
  | PropertyNotAvailable
  | AlreadyPendingRequest
  | TooManyRentals
  | DurationBelowDefault int
  | DurationAbove24
  | RentalNotPending
  | RentalNotActive
  | TerminationAlreadyPending
  | NoticeTooShort
  | TerminationAlreadyProcessed
  | RenewalAlreadyPending
  | PaymentAlreadyExists
  | AmountMismatch int
  | UserNotFound
  | InternalError

fun http_status :: "error \<Rightarrow> nat" where
  "http_status Unauthorized = 401"
| "http_status WrongRole = 403"
| "http_status NotYourProperty = 403"
| "http_status NotYourRental = 403"
| "http_status PropertyNotFound = 404"
| "http_status RentalNotFound = 404"
| "http_status TerminationNotFound = 404"
| "http_status UserNotFound = 404"
| "http_status InternalError = 500"
| "http_status _ = 400"

text \<open>
  A handler maps the stored collections to a failure, or to the collections it has
  written back. \<open>run\<close> gives the store after the request: a failed request returns
  before any \<^verbatim>\<open>writeJSON\<close>.
\<close>

definition run :: "(db \<Rightarrow> error + db) \<Rightarrow> db \<Rightarrow> db" where
  "run handler s = (case handler s of Inl e \<Rightarrow> s | Inr s' \<Rightarrow> s')"

section \<open>Approve or decline a rental (POST /api/rentals/approve)\<close>

definition approve_rental ::
    "zone \<Rightarrow> credential \<Rightarrow> string \<Rightarrow> string \<Rightarrow> db \<Rightarrow> error + db" where
  "approve_rental z cred rentalId action s =
     (case cred of
        NoBearer \<Rightarrow> Inl Unauthorized
      | Unparsable \<Rightarrow> Inl WrongRole
      | Token userId role \<Rightarrow>
          if role \<noteq> ''landlord'' then Inl WrongRole
          else if rentalId = [] \<or> action = [] then Inl MissingInput
          else if action \<noteq> ''approve'' \<and> action \<noteq> ''decline'' then Inl InvalidAction
          else
            (case findById r_id (rentals s) rentalId of
               None \<Rightarrow> Inl RentalNotFound
             | Some rental \<Rightarrow>
                 (case findById p_id (properties s) (r_propertyId rental) of
                    None \<Rightarrow> Inl PropertyNotFound
                  | Some property \<Rightarrow>
                      if p_ownerId property \<noteq> userId then Inl NotYourProperty
                      else if r_status rental \<noteq> Pending then Inl RentalNotPending
                      else if action = ''approve'' then
                        (let endDate =
                               (case r_endDate rental of
                                  Some e \<Rightarrow> e
                                | None \<Rightarrow>
                                    toISODate (setFullYear_plus z (new_Date (r_startDate rental)) 1))
                         in Inr (s\<lparr>rentals :=
                                     updateById r_id (rentals s) rentalId
                                       (\<lambda>r. r\<lparr>r_status := Active, r_endDate := Some endDate\<rparr>),
                                   properties :=
                                     updateById p_id (properties s) (p_id property)
                                       (\<lambda>p. p\<lparr>p_available := False\<rparr>)\<rparr>))
                      else
                        Inr (s\<lparr>rentals :=
                                  updateById r_id (rentals s) rentalId
                                    (\<lambda>r. r\<lparr>r_status := Cancelled\<rparr>)\<rparr>))))"

section \<open>Availability check (GET /api/properties/check-availability)\<close>

text \<open>
  The filter \<^verbatim>\<open>activeRentals\<close> of the availability check; the same filter stands in the
  property update and list-again handlers. \<open>now\<close> is \<^verbatim>\<open>new Date()\<close>.
\<close>

definition activeRentals :: "string \<Rightarrow> instant \<Rightarrow> Rental list \<Rightarrow> Rental list" where
  "activeRentals propertyId now rs =
     filter (\<lambda>r.
       if r_propertyId r \<noteq> propertyId then False
       else if r_status r = Active \<or> r_status r = RenewalPending \<or> r_status r = Terminating then
         (case r_endDate r of
            Some e \<Rightarrow> (if instant_lt now (new_Date e) then True else False)
          | None \<Rightarrow> True)
       else False) rs"


section \<open>Request a rental (POST /api/rentals/request)\<close>

text \<open>
  \<open>rentalDuration\<close> is the body's optional number of months (\<open>None\<close> when absent); in
  \<^verbatim>\<open>rentalDuration || defaultDuration\<close> a duration of 0 is falsy, like an absent one.
  \<open>newId\<close> is the result of \<^verbatim>\<open>generateId("r")\<close> and \<open>now\<close> the clock reading.

  A window date that does not parse gives an Invalid Date: every comparison with it is
  false, and the month difference computed from it is \<^verbatim>\<open>NaN\<close>, here \<open>None\<close>. A
  duration of \<^verbatim>\<open>NaN\<close> passes both duration checks (the comparisons are false), makes the
  end date an Invalid Date, and \<^verbatim>\<open>toISOString\<close> throws on that: the handler's
  \<^verbatim>\<open>catch\<close> answers with status 500 before anything is written. \<open>create\<close> is the rest
  of the handler from the 24-month check on.
\<close>

definition request_rental ::
    "zone \<Rightarrow> credential \<Rightarrow> string \<Rightarrow> int option \<Rightarrow> string \<Rightarrow> instant \<Rightarrow> db
       \<Rightarrow> error + db" where
  "request_rental z cred propertyId rentalDuration newId now s =
     (case cred of
        NoBearer \<Rightarrow> Inl Unauthorized
      | Unparsable \<Rightarrow> Inl WrongRole
      | Token userId role \<Rightarrow>
          if role \<noteq> ''tenant'' then Inl WrongRole
          else if propertyId = [] then Inl MissingInput
          else
            (case findById p_id (properties s) propertyId of
               None \<Rightarrow> Inl PropertyNotFound
             | Some property \<Rightarrow>
                 if \<not> p_available property then Inl PropertyNotAvailable
                 else if find (\<lambda>r. r_tenantId r = userId \<and> r_propertyId r = propertyId \<and>
                                    r_status r = Pending) (rentals s) \<noteq> None
                 then Inl AlreadyPendingRequest
                 else if length (filter (\<lambda>r. r_tenantId r = userId \<and>
                                   (r_status r = Active \<or> r_status r = Pending \<or>
                                    r_status r = RenewalPending \<or> r_status r = Terminating))
                                 (rentals s)) \<ge> 20
                 then Inl TooManyRentals
                 else
                   (let rentalStartDate =
                          (case p_startDate property of
                             Some sd \<Rightarrow>
                               if parses sd \<and> \<not> instant_lt (new_Date sd) now then sd
                               else toISODate now
                           | None \<Rightarrow> toISODate now);
                        defaultDuration =
                          (case p_startDate property of
                             Some sd \<Rightarrow>
                               (case p_endDate property of
                                  Some ed \<Rightarrow>
                                    if parses sd \<and> parses ed then Some (monthsDiff z sd ed)
                                    else None
                                | None \<Rightarrow> Some 12)
                           | None \<Rightarrow> Some 12);
                        duration =
                          (case rentalDuration of
                             Some d \<Rightarrow> if d \<noteq> 0 then Some d else defaultDuration
                           | None \<Rightarrow> defaultDuration);
                        create =
                          (\<lambda>d. if d > 24 then Inl DurationAbove24
                               else
                                 (let rentalEndDate =
                                        toISODate (setMonth_plus z (new_Date rentalStartDate) d);
                                      newRental =
                                        \<lparr>r_id = newId, r_tenantId = userId,
                                         r_landlordId = p_ownerId property,
                                         r_propertyId = propertyId,
                                         r_startDate = rentalStartDate,
                                         r_endDate = Some rentalEndDate,
                                         r_status = Pending, r_monthlyRent = p_rent property,
                                         r_createdAt = now\<rparr>
                                  in Inr (s\<lparr>rentals := rentals s @ [newRental]\<rparr>)))
                    in case duration of
                         None \<Rightarrow> Inl InternalError
                       | Some d \<Rightarrow>
                           (case defaultDuration of
                              Some dd \<Rightarrow>
                                if d < dd then Inl (DurationBelowDefault dd) else create d
                            | None \<Rightarrow> create d))))"

section \<open>Request a termination (POST /api/rentals/terminate)\<close>

text \<open>
  \<open>requestedEndDate\<close> is \<open>None\<close> when the body has none (or an empty one); a given one
  is a \<^verbatim>\<open>YYYY-MM-DD\<close> string. When it does not parse, \<^verbatim>\<open>endDate\<close> is an Invalid Date
  and \<^verbatim>\<open>endDate < twoMonthsFromNow\<close> is false. \<open>reason\<close> is \<^verbatim>\<open>reason || ""\<close>.
\<close>

definition request_termination ::
    "zone \<Rightarrow> credential \<Rightarrow> string \<Rightarrow> date option \<Rightarrow> string \<Rightarrow> string \<Rightarrow> instant \<Rightarrow> db
       \<Rightarrow> error + db" where
  "request_termination z cred rentalId requestedEndDate reason newId now s =
     (case cred of
        NoBearer \<Rightarrow> Inl Unauthorized
      | Unparsable \<Rightarrow> Inl WrongRole
      | Token userId role \<Rightarrow>
          if role \<noteq> ''tenant'' then Inl WrongRole
          else
            (case requestedEndDate of
               None \<Rightarrow> Inl MissingInput
             | Some red \<Rightarrow>
                 if rentalId = [] then Inl MissingInput
                 else
                   (case findById r_id (rentals s) rentalId of
                      None \<Rightarrow> Inl RentalNotFound
                    | Some rental \<Rightarrow>
                        if r_tenantId rental \<noteq> userId then Inl NotYourRental
                        else if r_status rental \<noteq> Active then Inl RentalNotActive
                        else if find (\<lambda>t. t_rentalId t = rentalId \<and> t_status t = RequestPending)
                                  (terminations s) \<noteq> None
                        then Inl TerminationAlreadyPending
                        else
                          (let endDate = new_Date red;
                               twoMonthsFromNow = setMonth_plus z now 2
                           in if parses red \<and> instant_lt endDate twoMonthsFromNow
                              then Inl NoticeTooShort
                              else
                                (let termination =
                                       \<lparr>t_id = newId, t_rentalId = rentalId, t_tenantId = userId,
                                        t_landlordId = r_landlordId rental,
                                        t_requestedEndDate = red, t_reason = reason,
                                        t_status = RequestPending,
                                        t_createdAt = now, t_updatedAt = now\<rparr>
                                 in Inr (s\<lparr>terminations := terminations s @ [termination],
                                           rentals :=
                                             update_first (\<lambda>r. r_id r = rentalId)
                                               (\<lambda>r. r\<lparr>r_status := Terminating,
                                                       r_endDate := Some red\<rparr>)
                                               (rentals s)\<rparr>))))))"

section \<open>Approve or reject a termination (POST /api/rentals/termination/approve)\<close>

text \<open>
  \<open>approve\<close> is the body's boolean (\<open>None\<close> when it is not a boolean). The handler first
  repairs the termination's \<^verbatim>\<open>landlordId\<close> in the loaded array, then checks that the
  termination is pending, and writes all three collections back at the end.
\<close>

definition decide_termination ::
    "credential \<Rightarrow> string \<Rightarrow> bool option \<Rightarrow> instant \<Rightarrow> db \<Rightarrow> error + db" where
  "decide_termination cred terminationId approve now s =
     (case cred of
        NoBearer \<Rightarrow> Inl Unauthorized
      | Unparsable \<Rightarrow> Inl WrongRole
      | Token userId role \<Rightarrow>
          if role \<noteq> ''landlord'' then Inl WrongRole
          else
            (case approve of
               None \<Rightarrow> Inl MissingInput
             | Some appr \<Rightarrow>
                 if terminationId = [] then Inl MissingInput
                 else
                   (case findById t_id (terminations s) terminationId of
                      None \<Rightarrow> Inl TerminationNotFound
                    | Some termination \<Rightarrow>
                        (case findById r_id (rentals s) (t_rentalId termination) of
                           None \<Rightarrow> Inl RentalNotFound
                         | Some rental \<Rightarrow>
                             (case findById p_id (properties s) (r_propertyId rental) of
                                None \<Rightarrow> Inl PropertyNotFound
                              | Some property \<Rightarrow>
                                  if p_ownerId property \<noteq> userId then Inl NotYourProperty
                                  else
                                    (let healed =
                                           (if t_landlordId termination = [] \<or>
                                               t_landlordId termination \<noteq> p_ownerId property
                                            then update_first (\<lambda>t. t_id t = terminationId)
                                                   (\<lambda>t. t\<lparr>t_landlordId := p_ownerId property\<rparr>)
                                                   (terminations s)
                                            else terminations s)
                                     in if t_status termination \<noteq> RequestPending
                                        then Inl TerminationAlreadyProcessed
                                        else
                                          (let decided =
                                                 update_first (\<lambda>t. t_id t = terminationId)
                                                   (\<lambda>t. t\<lparr>t_status :=
                                                             (if appr then Approved else Rejected),
                                                           t_updatedAt := now\<rparr>)
                                                   healed;
                                               rentals' =
                                                 (if appr then
                                                    update_first
                                                      (\<lambda>r. r_id r = t_rentalId termination)
                                                      (\<lambda>r. r\<lparr>r_status := Completed,
                                                              r_endDate :=
                                                                Some (t_requestedEndDate termination)\<rparr>)
                                                      (rentals s)
                                                  else
                                                    update_first
                                                      (\<lambda>r. r_id r = t_rentalId termination)
                                                      (\<lambda>r. r\<lparr>r_status := Active\<rparr>)
                                                      (rentals s))
                                           in Inr (s\<lparr>terminations := decided,
                                                     rentals := rentals',
                                                     properties := properties s\<rparr>))))))))"

section \<open>Request a renewal (POST /api/rentals/renew)\<close>

text \<open>
  \<open>renewalDuration\<close> is the body's number (\<open>None\<close> when absent); \<^verbatim>\<open>!renewalDuration\<close>
  also holds for 0.
\<close>

definition request_renewal ::
    "zone \<Rightarrow> credential \<Rightarrow> string \<Rightarrow> int option \<Rightarrow> string \<Rightarrow> instant \<Rightarrow> db
       \<Rightarrow> error + db" where
  "request_renewal z cred rentalId renewalDuration newId now s =
     (case cred of
        NoBearer \<Rightarrow> Inl Unauthorized
      | Unparsable \<Rightarrow> Inl WrongRole
      | Token userId role \<Rightarrow>
          if role \<noteq> ''tenant'' then Inl WrongRole
          else
            (case renewalDuration of
               None \<Rightarrow> Inl MissingInput
             | Some d \<Rightarrow>
                 if rentalId = [] \<or> d = 0 then Inl MissingInput
                 else if d < 1 \<or> d > 24 then Inl InvalidRenewalDuration
                 else
                   (case findById r_id (rentals s) rentalId of
                      None \<Rightarrow> Inl RentalNotFound
                    | Some rental \<Rightarrow>
                        if r_tenantId rental \<noteq> userId then Inl NotYourRental
                        else if r_status rental \<noteq> Active then Inl RentalNotActive
                        else if find (\<lambda>r. rn_rentalId r = rentalId \<and> rn_status r = RequestPending)
                                  (renewals s) \<noteq> None
                        then Inl RenewalAlreadyPending
                        else
                          (let landlordId =
                                 (if r_landlordId rental = [] then
                                    (case findById p_id (properties s) (r_propertyId rental) of
                                       Some property \<Rightarrow> p_ownerId property
                                     | None \<Rightarrow> r_landlordId rental)
                                  else r_landlordId rental);
                               currentEndDate =
                                 (case r_endDate rental of
                                    Some e \<Rightarrow> new_Date e
                                  | None \<Rightarrow> new_Date (r_startDate rental));
                               renewalStartDate = setDate_plus1 z currentEndDate;
                               renewal =
                                 \<lparr>rn_id = newId, rn_rentalId = rentalId, rn_tenantId = userId,
                                  rn_landlordId = landlordId, rn_renewalDuration = d,
                                  rn_requestedStartDate = toISODate renewalStartDate,
                                  rn_status = RequestPending,
                                  rn_createdAt = now, rn_updatedAt = now\<rparr>
                           in Inr (s\<lparr>renewals := renewals s @ [renewal],
                                     rentals :=
                                       update_first (\<lambda>r. r_id r = rentalId)
                                         (\<lambda>r. r\<lparr>r_status := RenewalPending\<rparr>)
                                         (rentals s)\<rparr>)))))"

section \<open>Create a payment (POST /api/payments/create)\<close>

definition is_digit :: "char \<Rightarrow> bool" where
  "is_digit c = (c \<in> set ''0123456789'')"

text \<open>\<^verbatim>\<open>/^\d{4}-\d{2}$/.test(month)\<close>\<close>

definition monthRegex_test :: "string \<Rightarrow> bool" where
  "monthRegex_test m =
     (length m = 7 \<and> list_all is_digit (take 4 m) \<and> m ! 4 = CHR ''-'' \<and>
      list_all is_digit (drop 5 m))"

text \<open>
  \<open>amount\<close> is the body's number (\<open>None\<close> when absent; \<^verbatim>\<open>!amount\<close> also holds for 0);
  money amounts are whole numbers of the currency. \<open>method\<close> is empty when the body has
  none. \<open>newId\<close> is \<^verbatim>\<open>generateId("pay")\<close>.
\<close>

definition create_payment ::
    "credential \<Rightarrow> string \<Rightarrow> string \<Rightarrow> int option \<Rightarrow> string \<Rightarrow> string \<Rightarrow> instant \<Rightarrow> db
       \<Rightarrow> error + db" where
  "create_payment cred rentalId month amount method newId now s =
     (case cred of
        NoBearer \<Rightarrow> Inl Unauthorized
      | Unparsable \<Rightarrow> Inl WrongRole
      | Token userId role \<Rightarrow>
          if role \<noteq> ''tenant'' then Inl WrongRole
          else
            (case amount of
               None \<Rightarrow> Inl MissingInput
             | Some a \<Rightarrow>
                 if rentalId = [] \<or> month = [] \<or> a = 0 then Inl MissingInput
                 else if \<not> monthRegex_test month then Inl InvalidMonthFormat
                 else if a \<le> 0 then Inl AmountNotPositive
                 else
                   (case findById r_id (rentals s) rentalId of
                      None \<Rightarrow> Inl RentalNotFound
                    | Some rental \<Rightarrow>
                        if r_tenantId rental \<noteq> userId then Inl NotYourRental
                        else if r_status rental \<noteq> Active then Inl RentalNotActive
                        else if find (\<lambda>p. pay_rentalId p = rentalId \<and> pay_month p = month)
                                  (payments s) \<noteq> None
                        then Inl PaymentAlreadyExists
                        else if a \<noteq> r_monthlyRent rental
                        then Inl (AmountMismatch (r_monthlyRent rental))
                        else
                          (let newPayment =
                                 \<lparr>pay_id = newId, pay_rentalId = rentalId, pay_amount = a,
                                  pay_month = month, pay_status = Paid, pay_timestamp = now,
                                  pay_method =
                                    (if method = [] then ''online_payment'' else method)\<rparr>
                           in Inr (s\<lparr>payments := payments s @ [newPayment]\<rparr>)))))"

section \<open>Dashboards (GET /api/dashboard/ministry, GET /api/dashboard/landlord)\<close>

definition digit_char :: "nat \<Rightarrow> char" where
  "digit_char n = ''0123456789'' ! (n mod 10)"

text \<open>
  \<^verbatim>\<open>new Date().toISOString().slice(0, 7)\<close>: the current month as \<^verbatim>\<open>YYYY-MM\<close> (for the
  years 0 to 9999, which print with four digits).
\<close>

definition currentMonth :: "instant \<Rightarrow> string" where
  "currentMonth now =
     (let y = nat (d_year (toISODate now)); m = d_month (toISODate now)
      in [digit_char (y div 1000), digit_char (y div 100), digit_char (y div 10), digit_char y]
         @ ''-'' @ [digit_char (m div 10), digit_char m])"

subsection \<open>Double-precision arithmetic\<close>

text \<open>
  JavaScript numbers are IEEE 754 doubles: the result of \<^verbatim>\<open>/\<close> and \<^verbatim>\<open>*\<close> is the exact
  result rounded to the nearest double, ties to the even significand. \<open>fl x\<close> is that
  rounding for a rational \<open>x\<close> in the range of the normal doubles, where the doubles
  between \<open>2 ^ e\<close> and \<open>2 ^ (e + 1)\<close> are the multiples of \<open>2 ^ (e - 52)\<close>. The numbers
  of the dashboard (quotients of two list lengths, times 100, times 100 again) lie in that
  range or are 0.
\<close>

text \<open>\<open>ilog2 n x\<close> is the \<open>e\<close> with \<open>2 ^ e \<le> x < 2 ^ (e + 1)\<close>, found in at most \<open>n\<close> steps.\<close>

fun ilog2 :: "nat \<Rightarrow> rat \<Rightarrow> int" where
  "ilog2 0 x = 0"
| "ilog2 (Suc n) x =
     (if 2 \<le> x then ilog2 n (x / 2) + 1
      else if x < 1 then ilog2 n (x * 2) - 1
      else 0)"

definition pow2 :: "int \<Rightarrow> rat" where
  "pow2 e = (if 0 \<le> e then 2 ^ nat e else 1 / 2 ^ nat (- e))"

definition round_half_even :: "rat \<Rightarrow> int" where
  "round_half_even q =
     (let f = \<lfloor>q\<rfloor>; r = q - of_int f
      in if r < 1 / 2 then f
         else if 1 / 2 < r then f + 1
         else if even f then f else f + 1)"

definition fl :: "rat \<Rightarrow> rat" where
  "fl x =
     (if x = 0 then 0
      else (let ulp = pow2 (ilog2 1100 \<bar>x\<bar> - 52)
            in sgn x * of_int (round_half_even (\<bar>x\<bar> / ulp)) * ulp))"

subsection \<open>The ministry dashboard\<close>

text \<open>
  \<^verbatim>\<open>(compliantRentals.length / activeRentals) * 100\<close>, each operation rounded to a double.
\<close>

definition activeRentalIds :: "Rental list \<Rightarrow> string list" where
  "activeRentalIds rs = map r_id (filter (\<lambda>r. r_status r = Active) rs)"

definition compliantRentals :: "string \<Rightarrow> Payment list \<Rightarrow> string list \<Rightarrow> string list" where
  "compliantRentals month ps ids =
     filter (\<lambda>rentalId.
        find (\<lambda>p. pay_rentalId p = rentalId \<and> pay_month p = month \<and> pay_status p = Paid) ps
          \<noteq> None) ids"

definition complianceRate :: "instant \<Rightarrow> db \<Rightarrow> rat" where
  "complianceRate now s =
     (let activeRentals = length (filter (\<lambda>r. r_status r = Active) (rentals s));
          compliant = compliantRentals (currentMonth now) (payments s) (activeRentalIds (rentals s))
      in if activeRentals > 0
         then fl (fl (of_nat (length compliant) / of_nat activeRentals) * 100)
         else 0)"

text \<open>
  \<^verbatim>\<open>Math.round(x * 100) / 100\<close>: the product and the quotient are rounded to doubles;
  \<^verbatim>\<open>Math.round\<close> gives the nearest integer, a half going up.
\<close>

definition round2 :: "rat \<Rightarrow> rat" where
  "round2 x = fl (of_int \<lfloor>fl (x * 100) + 1 / 2\<rfloor> / 100)"

record MinistryDashboardData =
  totalTenants :: nat
  totalLandlords :: nat
  m_activeRentals :: nat
  totalProperties :: nat
  totalRevenue :: int
  m_complianceRate :: rat

text \<open>
  The ministry dashboard (its mock \<^verbatim>\<open>rentMap\<close> is left out). The handler only calls
  \<^verbatim>\<open>readJSON\<close>: it returns the response together with the store as it found it.
\<close>

definition ministry_dashboard ::
    "credential \<Rightarrow> instant \<Rightarrow> db \<Rightarrow> (error + MinistryDashboardData) \<times> db" where
  "ministry_dashboard cred now s =
     (case cred of
        NoBearer \<Rightarrow> (Inl Unauthorized, s)
      | Unparsable \<Rightarrow> (Inl Unauthorized, s)
      | Token userId role \<Rightarrow>
          if role \<noteq> ''ministry'' then (Inl Unauthorized, s)
          else
            (Inr \<lparr>totalTenants = length (filter (\<lambda>u. u_role u = ''tenant'') (users s)),
                  totalLandlords = length (filter (\<lambda>u. u_role u = ''landlord'') (users s)),
                  m_activeRentals = length (filter (\<lambda>r. r_status r = Active) (rentals s)),
                  totalProperties = length (properties s),
                  totalRevenue =
                    sum_list (map pay_amount (filter (\<lambda>p. pay_status p = Paid) (payments s))),
                  m_complianceRate = round2 (complianceRate now s)\<rparr>, s))"





section \<open>The modelled requests as one interface\<close>

datatype request =
    RequestRental credential string "int option" string
  | ApproveRental credential string string
  | RequestTermination credential string "date option" string string
  | DecideTermination credential string "bool option"
  | RequestRenewal credential string "int option" string
  | CreatePayment credential string string "int option" string string

fun handle :: "zone \<Rightarrow> request \<Rightarrow> instant \<Rightarrow> db \<Rightarrow> error + db" where
  "handle z (RequestRental c pid dur newId) now = request_rental z c pid dur newId now"
| "handle z (ApproveRental c rid action) now = approve_rental z c rid action"
| "handle z (RequestTermination c rid red reason newId) now =
     request_termination z c rid red reason newId now"
| "handle z (DecideTermination c tid appr) now = decide_termination c tid appr now"
| "handle z (RequestRenewal c rid dur newId) now = request_renewal z c rid dur newId now"
| "handle z (CreatePayment c rid month amount method newId) now =
     create_payment c rid month amount method newId now"

text \<open>
  Requests are served one at a time, each at its own clock reading; a failed request leaves
  the store as it was.
\<close>

fun serve :: "zone \<Rightarrow> (request \<times> instant) list \<Rightarrow> db \<Rightarrow> db" where
  "serve z [] s = s"
| "serve z ((rq, now) # rest) s = serve z rest (run (handle z rq now) s)"

text \<open>Running two handlers in a row, stopping at the first failure.\<close>

definition and_then :: "error + db \<Rightarrow> (db \<Rightarrow> error + db) \<Rightarrow> error + db" where
  "and_then r h = (case r of Inl e \<Rightarrow> Inl e | Inr s \<Rightarrow> h s)"

section \<open>The specification's wording, for comparison\<close>

text \<open>
  The predicate ``live and not ended at time \<open>t\<close>'' of invariant 1 is the filter
  \<open>activeRentals\<close> above. Payment uniqueness: no two payments share rental and month.
\<close>

definition payment_key :: "Payment \<Rightarrow> string \<times> string" where
  "payment_key p = (pay_rentalId p, pay_month p)"

definition payments_unique :: "Payment list \<Rightarrow> bool" where
  "payments_unique ps = distinct (map payment_key ps)"

text \<open>
  ``The window's month-span'': the months from the window's start date to its end date, as
  the two strings give them.
\<close>

definition month_span :: "date \<Rightarrow> date \<Rightarrow> int" where
  "month_span a b = (d_year b - d_year a) * 12 + (int (d_month b) - int (d_month a))"

text \<open>A date string that names a day of the calendar.\<close>

definition calendar_valid :: "date \<Rightarrow> bool" where
  "calendar_valid d =
     (1 \<le> d_month d \<and> d_month d \<le> 12 \<and> 1 \<le> d_day d \<and>
      d_day d \<le> days_in_month (d_year d) (d_month d))"

text \<open>``startDate + d whole months'': the same day of the month, \<open>d\<close> months on.\<close>

definition plus_whole_months :: "date \<Rightarrow> int \<Rightarrow> date" where
  "plus_whole_months a d =
     \<lparr>d_year = d_year a + (int (d_month a) - 1 + d) div 12,
      d_month = nat ((int (d_month a) - 1 + d) mod 12) + 1,
      d_day = d_day a\<rparr>"

text \<open>
  ``The fraction of live Rentals (status active, renewal\_pending or terminating) that
  have a paid Payment for the current month.''
\<close>

definition is_live :: "Rental \<Rightarrow> bool" where
  "is_live r = (r_status r = Active \<or> r_status r = RenewalPending \<or> r_status r = Terminating)"

definition spec_compliance_fraction :: "instant \<Rightarrow> db \<Rightarrow> rat" where
  "spec_compliance_fraction now s =
     of_nat (length (filter (\<lambda>r. is_live r \<and>
                list_ex (\<lambda>p. pay_rentalId p = r_id r \<and> pay_month p = currentMonth now \<and>
                              pay_status p = Paid) (payments s)) (rentals s)))
     / of_nat (length (filter is_live (rentals s)))"

section \<open>Example stores\<close>

text \<open>
  A landlord \<open>l1\<close> with two properties, two tenants, and the clock at noon (UTC) of
  2025-01-10. Property \<open>p1\<close> is offered from 2025-03-01 to 2025-05-01, a window of two
  months.
\<close>

definition mk_date :: "int \<Rightarrow> nat \<Rightarrow> nat \<Rightarrow> date" where
  "mk_date y m d = \<lparr>d_year = y, d_month = m, d_day = d\<rparr>"

definition ex_now :: instant where
  "ex_now = \<lparr>i_date = mk_date 2025 1 10, i_ms = 43200000\<rparr>"

text \<open>Two more clock readings: noon (UTC) of 2025-01-01, and 20:00 (UTC) of 2024-12-31.\<close>

definition ex_new_year_noon :: instant where
  "ex_new_year_noon = \<lparr>i_date = mk_date 2025 1 1, i_ms = 43200000\<rparr>"

definition ex_new_years_eve :: instant where
  "ex_new_years_eve = \<lparr>i_date = mk_date 2024 12 31, i_ms = 72000000\<rparr>"

definition ex_user :: "string \<Rightarrow> string \<Rightarrow> User" where
  "ex_user uid role = \<lparr>u_id = uid, u_name = uid, u_email = uid @ ''@example.org'', u_role = role\<rparr>"

definition ex_property :: "string \<Rightarrow> bool \<Rightarrow> Property" where
  "ex_property pid avail =
     \<lparr>p_id = pid, p_ownerId = ''l1'', p_address = ''12 Lake Road, Gulshan'', p_rent = 15000,
      p_available = avail, p_startDate = Some (mk_date 2025 3 1),
      p_endDate = Some (mk_date 2025 5 1)\<rparr>"

definition ex_rental :: "string \<Rightarrow> string \<Rightarrow> string \<Rightarrow> RentalStatus \<Rightarrow> Rental" where
  "ex_rental rid tid pid st =
     \<lparr>r_id = rid, r_tenantId = tid, r_landlordId = ''l1'', r_propertyId = pid,
      r_startDate = mk_date 2025 3 1, r_endDate = Some (mk_date 2025 5 1), r_status = st,
      r_monthlyRent = 15000, r_createdAt = ex_now\<rparr>"

definition ex_payment :: "string \<Rightarrow> string \<Rightarrow> string \<Rightarrow> Payment" where
  "ex_payment payId rid month =
     \<lparr>pay_id = payId, pay_rentalId = rid, pay_amount = 15000, pay_month = month,
      pay_status = Paid, pay_timestamp = ex_now, pay_method = ''online_payment''\<rparr>"

definition ex_store :: "Property list \<Rightarrow> Rental list \<Rightarrow> Payment list \<Rightarrow> db" where
  "ex_store ps rs pays =
     \<lparr>users = [ex_user ''l1'' ''landlord'', ex_user ''t1'' ''tenant'', ex_user ''t2'' ''tenant''],
      properties = ps, rentals = rs, payments = pays, terminations = [], renewals = []\<rparr>"

text \<open>The listed property \<open>p1\<close> with no rental yet.\<close>

definition ex_listed :: db where
  "ex_listed = ex_store [ex_property ''p1'' True] [] []"

text \<open>
  Tenants \<open>t1\<close> and \<open>t2\<close> each request \<open>p1\<close> for two months, and the landlord approves
  the first request and then the second (on a server running in UTC).
\<close>

definition ex_two_approvals :: "error + db" where
  "ex_two_approvals =
     and_then
       (and_then
          (and_then
             (request_rental (fixed_zone 0) (Token ''t1'' ''tenant'') ''p1'' (Some 2) ''r1'' ex_now
                ex_listed)
             (request_rental (fixed_zone 0) (Token ''t2'' ''tenant'') ''p1'' (Some 2) ''r2'' ex_now))
          (approve_rental (fixed_zone 0) (Token ''l1'' ''landlord'') ''r1'' ''approve''))
       (approve_rental (fixed_zone 0) (Token ''l1'' ''landlord'') ''r2'' ''approve'')"

text \<open>
  The same with \<open>p1\<close> offered from 2025-03-31 to 2025-06-30, a window of three months
  that starts on a day the third month after it lacks.
\<close>

definition ex_listed_month_end :: db where
  "ex_listed_month_end =
     ex_store [(ex_property ''p1'' True)\<lparr>p_startDate := Some (mk_date 2025 3 31),
                                          p_endDate := Some (mk_date 2025 6 30)\<rparr>] [] []"

text \<open>\<open>p1\<close> with a pending request of \<open>t1\<close>.\<close>

definition ex_requested :: db where
  "ex_requested = ex_store [ex_property ''p1'' True] [ex_rental ''r1'' ''t1'' ''p1'' Pending] []"

text \<open>\<open>p1\<close> rented to \<open>t1\<close> and no longer flagged available.\<close>

definition ex_rented :: db where
  "ex_rented = ex_store [ex_property ''p1'' False] [ex_rental ''r1'' ''t1'' ''p1'' Active] []"



text \<open>
  \<open>p1\<close> rented to \<open>t1\<close>, who has paid January 2025, and \<open>p2\<close> rented to \<open>t2\<close>, whose
  rental has a termination request open and who has not paid.
\<close>

definition ex_two_tenancies :: db where
  "ex_two_tenancies =
     ex_store [ex_property ''p1'' False, ex_property ''p2'' False]
       [ex_rental ''r1'' ''t1'' ''p1'' Active, ex_rental ''r2'' ''t2'' ''p2'' Terminating]
       [ex_payment ''pay1'' ''r1'' ''2025-01'']"

text \<open>
  The store \<open>ex_rented\<close> after tenant \<open>t1\<close> has asked to end rental \<open>r1\<close> on 2025-03-16:
  with the request open (the Rental terminating, the request pending), and after the
  landlord's approval or rejection.
\<close>

definition ex_termination :: "RequestStatus \<Rightarrow> RentalTermination" where
  "ex_termination st =
     \<lparr>t_id = ''term1'', t_rentalId = ''r1'', t_tenantId = ''t1'', t_landlordId = ''l1'',
      t_requestedEndDate = mk_date 2025 3 16, t_reason = ''moving'', t_status = st,
      t_createdAt = ex_now, t_updatedAt = ex_now\<rparr>"

definition ex_after_termination :: "RentalStatus \<Rightarrow> RequestStatus \<Rightarrow> db" where
  "ex_after_termination rst tst =
     (ex_store [ex_property ''p1'' False]
        [(ex_rental ''r1'' ''t1'' ''p1'' rst)\<lparr>r_endDate := Some (mk_date 2025 3 16)\<rparr>] [])
     \<lparr>terminations := [ex_termination tst]\<rparr>"


text \<open>
  A store with \<open>n\<close> active Rentals, numbered from 0 and each on a property and with a
  tenant of its own, of which the first \<open>k\<close> have a paid Payment for January 2025. The
  identifier of number \<open>i\<close> is the letter \<open>r\<close> written \<open>i + 1\<close> times.
\<close>

definition ex_id :: "nat \<Rightarrow> string" where
  "ex_id i = replicate (Suc i) (CHR ''r'')"

definition ex_many_active :: "nat \<Rightarrow> nat \<Rightarrow> db" where
  "ex_many_active n k =
     ex_store []
       (map (\<lambda>i. ex_rental (ex_id i) (ex_id i) (ex_id i) Active) [0..<n])
       (map (\<lambda>i. ex_payment (ex_id i) (ex_id i) ''2025-01'') [0..<k])"

section \<open>Verified properties\<close>

subsection \<open>Unfolding the examples and the calendar\<close>

lemmas ex_defs = ex_store_def ex_property_def ex_rental_def ex_user_def ex_payment_def
  ex_now_def mk_date_def

lemmas date_defs = instant_lt_def date_lt_def new_Date_def toISODate_def make_date_def
  setMonth_plus_def setFullYear_plus_def setDate_plus1_def monthsDiff_def getFullYear_def
  getMonth_def days_in_month_def leap_year_def parses_def

lemmas zone_defs = fixed_zone_def plus_ms_def next_day_def prev_day_def

text \<open>At offset 0 local time is UTC.\<close>

lemma plus_ms_0: "i_ms t < 86400000 \<Longrightarrow> plus_ms t 0 = t"
  by (simp add: plus_ms_def)

lemma fixed_zone_0:
  "i_ms t < 86400000 \<Longrightarrow> LocalTime (fixed_zone 0) t = t"
  "i_ms t < 86400000 \<Longrightarrow> UTC (fixed_zone 0) t = t"
  by (simp_all add: fixed_zone_def plus_ms_0)

subsection \<open>Lookups after updates\<close>

lemma findById_Some_id: "findById idf xs i = Some x \<Longrightarrow> idf x = i"
  by (induction xs) (auto simp: findById_def split: if_splits)

lemma findById_updateById:
  assumes "\<And>x. idf (f x) = idf x"
  shows "findById idf (updateById idf xs i f) j =
         (if j = i then map_option f (findById idf xs j) else findById idf xs j)"
  using assms by (induction xs) (auto simp: findById_def updateById_def)

subsection \<open>Calendar facts of the examples\<close>

lemmas ex_rec_defs = ex_store_def ex_property_def ex_rental_def ex_user_def ex_payment_def

lemma ex_window:
  "parses (mk_date 2025 3 1)"
  "parses (mk_date 2025 5 1)"
  "monthsDiff (fixed_zone 0) (mk_date 2025 3 1) (mk_date 2025 5 1) = 2"
  "\<not> instant_lt (new_Date (mk_date 2025 3 1)) ex_now"
  "toISODate (setMonth_plus (fixed_zone 0) (new_Date (mk_date 2025 3 1)) 2) = mk_date 2025 5 1"
  "instant_lt ex_now (new_Date (mk_date 2025 5 1))"
  by (simp_all add: date_defs fixed_zone_0 Let_def ex_now_def mk_date_def)

text \<open>
  When the day of the month is at most 28, \<^verbatim>\<open>setMonth\<close> lands on the same day of the
  month, the given number of months on.
\<close>

lemma make_date_plus_whole_months:
  "d_day a \<le> 28 \<Longrightarrow>
     make_date (d_year a) (int (d_month a) - 1 + k) (d_day a) = plus_whole_months a k"
  by (simp add: make_date_def plus_whole_months_def days_in_month_def Let_def)

subsection \<open>Approving and declining\<close>

lemma approve_rental_Inr_cases:
  assumes "approve_rental z cred rentalId action s = Inr s'"
  obtains userId rental property where
    "cred = Token userId ''landlord''"
    "action = ''approve'' \<or> action = ''decline''"
    "rentalId \<noteq> []"
    "findById r_id (rentals s) rentalId = Some rental"
    "findById p_id (properties s) (r_propertyId rental) = Some property"
    "p_ownerId property = userId"
    "r_status rental = Pending"
  using assms unfolding approve_rental_def
  by (auto split: credential.splits if_splits option.splits)

lemma approve_rental_again:
  assumes ok: "approve_rental z cred rentalId action s = Inr s'"
      and act: "action' = ''approve'' \<or> action' = ''decline''"
  shows "approve_rental z cred rentalId action' s' = Inl RentalNotPending"
proof -
  from ok obtain userId rental property where
    h: "cred = Token userId ''landlord''"
    "action = ''approve'' \<or> action = ''decline''"
    "rentalId \<noteq> []"
    "findById r_id (rentals s) rentalId = Some rental"
    "findById p_id (properties s) (r_propertyId rental) = Some property"
    "p_ownerId property = userId"
    "r_status rental = Pending"
    by (rule approve_rental_Inr_cases)
  show ?thesis
  proof (cases "action = ''approve''")
    case True
    define e where "e = (case r_endDate rental of Some e \<Rightarrow> e
                   | None \<Rightarrow> toISODate (setFullYear_plus z (new_Date (r_startDate rental)) 1))"
    from ok h True have s': "s' = s\<lparr>rentals := updateById r_id (rentals s) rentalId
                                       (\<lambda>r. r\<lparr>r_status := Active, r_endDate := Some e\<rparr>),
                                   properties := updateById p_id (properties s) (p_id property)
                                       (\<lambda>p. p\<lparr>p_available := False\<rparr>)\<rparr>"
      by (simp add: approve_rental_def e_def)
    have r: "findById r_id (rentals s') rentalId =
               Some (rental\<lparr>r_status := Active, r_endDate := Some e\<rparr>)"
      by (simp add: s' findById_updateById h)
    have p: "\<exists>p'. findById p_id (properties s') (r_propertyId rental) = Some p' \<and>
                  p_ownerId p' = userId"
      using findById_Some_id [OF h(5)] by (simp add: s' findById_updateById h)
    from r p act h show ?thesis
      by (auto simp add: approve_rental_def)
  next
    case False
    with h have d: "action = ''decline''" by simp
    from ok h d have s': "s' = s\<lparr>rentals := updateById r_id (rentals s) rentalId
                                       (\<lambda>r. r\<lparr>r_status := Cancelled\<rparr>)\<rparr>"
      by (simp add: approve_rental_def)
    have r: "findById r_id (rentals s') rentalId = Some (rental\<lparr>r_status := Cancelled\<rparr>)"
      by (simp add: s' findById_updateById h)
    have p: "findById p_id (properties s') (r_propertyId rental) = Some property"
      by (simp add: s' h)
    from r p act h show ?thesis
      by (auto simp add: approve_rental_def)
  qed
qed

text \<open>
  C6. Approving or declining a Rental that is not pending fails and leaves the store
  unchanged; when the caller is the landlord who owns the property, the failure is the
  state conflict ``Rental is not pending''. In particular, after a successful approve or
  decline, a second approve or decline of the same Rental by the same caller is that
  error, and the store stays as the first call left it.
\<close>

theorem approve_rental_requires_pending:
  "(findById r_id (rentals s) rentalId = Some rental \<and> r_status rental \<noteq> Pending \<longrightarrow>
      isl (approve_rental z cred rentalId action s) \<and>
      run (approve_rental z cred rentalId action) s = s) \<and>
   (findById r_id (rentals s) rentalId = Some rental \<and> r_status rental \<noteq> Pending \<and>
    rentalId \<noteq> [] \<and> (action = ''approve'' \<or> action = ''decline'') \<and>
    findById p_id (properties s) (r_propertyId rental) = Some property \<and>
    p_ownerId property = userId \<longrightarrow>
      approve_rental z (Token userId ''landlord'') rentalId action s = Inl RentalNotPending) \<and>
   (approve_rental z cred rentalId action s = Inr s' \<and>
    (action' = ''approve'' \<or> action' = ''decline'') \<longrightarrow>
      approve_rental z cred rentalId action' s' = Inl RentalNotPending \<and>
      run (approve_rental z cred rentalId action') s' = s')"
proof (intro conjI impI)
  assume a: "findById r_id (rentals s) rentalId = Some rental \<and> r_status rental \<noteq> Pending"
  then show 1: "isl (approve_rental z cred rentalId action s)"
    by (auto simp: approve_rental_def split: credential.splits option.splits)
  then show "run (approve_rental z cred rentalId action) s = s"
    by (auto simp: run_def isl_def)
next
  assume "findById r_id (rentals s) rentalId = Some rental \<and> r_status rental \<noteq> Pending \<and>
    rentalId \<noteq> [] \<and> (action = ''approve'' \<or> action = ''decline'') \<and>
    findById p_id (properties s) (r_propertyId rental) = Some property \<and>
    p_ownerId property = userId"
  then show "approve_rental z (Token userId ''landlord'') rentalId action s = Inl RentalNotPending"
    by (auto simp: approve_rental_def)
next
  assume a: "approve_rental z cred rentalId action s = Inr s' \<and>
    (action' = ''approve'' \<or> action' = ''decline'')"
  then show 3: "approve_rental z cred rentalId action' s' = Inl RentalNotPending"
    using approve_rental_again by blast
  then show "run (approve_rental z cred rentalId action') s' = s'"
    by (simp add: run_def)
qed

text \<open>
  On the example: the landlord approves the pending request \<open>r1\<close>; approving or declining
  it again is the state conflict, and the store does not change.
\<close>

theorem approve_rental_requires_pending_witness:
  "approve_rental (fixed_zone 0) (Token ''l1'' ''landlord'') ''r1'' ''approve'' ex_requested
     = Inr (ex_store [ex_property ''p1'' False] [ex_rental ''r1'' ''t1'' ''p1'' Active] []) \<and>
   approve_rental (fixed_zone 0) (Token ''l1'' ''landlord'') ''r1'' ''approve'' ex_rented = Inl RentalNotPending \<and>
   approve_rental (fixed_zone 0) (Token ''l1'' ''landlord'') ''r1'' ''decline'' ex_rented = Inl RentalNotPending \<and>
   run (approve_rental (fixed_zone 0) (Token ''l1'' ''landlord'') ''r1'' ''approve'') ex_rented = ex_rented"
proof -
  have ok: "approve_rental (fixed_zone 0) (Token ''l1'' ''landlord'') ''r1'' ''approve'' ex_requested = Inr ex_rented"
    by (simp add: approve_rental_def findById_def updateById_def ex_defs ex_requested_def
          ex_rented_def)
  have found: "findById r_id (rentals ex_rented) ''r1'' = Some (ex_rental ''r1'' ''t1'' ''p1'' Active)"
    by (simp add: findById_def ex_defs ex_requested_def ex_rented_def)
  have st: "r_status (ex_rental ''r1'' ''t1'' ''p1'' Active) \<noteq> Pending"
    by (simp add: ex_defs ex_requested_def ex_rented_def)
  from approve_rental_requires_pending
    [where s = ex_rented and rentalId = "''r1''" and cred = "Token ''l1'' ''landlord''"
       and action = "''approve''" and rental = "ex_rental ''r1'' ''t1'' ''p1'' Active"]
    found st
  have a: "run (approve_rental (fixed_zone 0) (Token ''l1'' ''landlord'') ''r1'' ''approve'') ex_rented = ex_rented"
    by blast
  from approve_rental_requires_pending
    [where s = ex_requested and rentalId = "''r1''" and cred = "Token ''l1'' ''landlord''"
       and action = "''approve''" and s' = ex_rented and action' = "''approve''"] ok
  have b: "approve_rental (fixed_zone 0) (Token ''l1'' ''landlord'') ''r1'' ''approve'' ex_rented = Inl RentalNotPending"
    by blast
  from approve_rental_requires_pending
    [where s = ex_requested and rentalId = "''r1''" and cred = "Token ''l1'' ''landlord''"
       and action = "''approve''" and s' = ex_rented and action' = "''decline''"] ok
  have c: "approve_rental (fixed_zone 0) (Token ''l1'' ''landlord'') ''r1'' ''decline'' ex_rented = Inl RentalNotPending"
    by blast
  from ok a b c show ?thesis by (simp add: ex_rented_def)
qed

subsection \<open>Blocking rentals across an approval\<close>

lemma updateById_absent: "i \<notin> idf ` set xs \<Longrightarrow> updateById idf xs i f = xs"
  by (induction xs) (auto simp: updateById_def)

lemma filter_updateById_le:
  "distinct (map idf xs) \<Longrightarrow>
     length (filter Q (updateById idf xs i f)) \<le> length (filter Q xs) + 1"
proof (induction xs)
  case Nil
  then show ?case by (simp add: updateById_def)
next
  case (Cons x xs)
  show ?case
  proof (cases "idf x = i")
    case True
    with Cons.prems have "i \<notin> idf ` set xs" by auto
    then have "updateById idf xs i f = xs" by (rule updateById_absent)
    then have "updateById idf (x # xs) i f = f x # xs"
      using True by (simp add: updateById_def)
    then show ?thesis by simp
  next
    case False
    then have "updateById idf (x # xs) i f = x # updateById idf xs i f"
      by (simp add: updateById_def)
    moreover from Cons have "length (filter Q (updateById idf xs i f)) \<le> length (filter Q xs) + 1"
      by simp
    ultimately show ?thesis by simp
  qed
qed

lemma filter_updateById_same:
  "(\<And>y. y \<in> set xs \<Longrightarrow> idf y = i \<Longrightarrow> \<not> Q y \<and> \<not> Q (f y)) \<Longrightarrow>
     filter Q (updateById idf xs i f) = filter Q xs"
  by (induction xs) (auto simp: updateById_def)

lemma findById_distinct_unique:
  "distinct (map idf xs) \<Longrightarrow> findById idf xs i = Some x \<Longrightarrow> y \<in> set xs \<Longrightarrow> idf y = i \<Longrightarrow> y = x"
  by (induction xs) (auto simp: findById_def split: if_splits)

lemma approve_rental_rentals:
  assumes ok: "approve_rental z cred rentalId action s = Inr s'"
  shows "\<exists>rental f. findById r_id (rentals s) rentalId = Some rental \<and> r_status rental = Pending \<and>
           (\<forall>r. r_propertyId (f r) = r_propertyId r) \<and>
           rentals s' = updateById r_id (rentals s) rentalId f"
proof -
  from ok obtain userId rental property where
    h: "cred = Token userId ''landlord''"
    "action = ''approve'' \<or> action = ''decline''"
    "rentalId \<noteq> []"
    "findById r_id (rentals s) rentalId = Some rental"
    "findById p_id (properties s) (r_propertyId rental) = Some property"
    "p_ownerId property = userId"
    "r_status rental = Pending"
    by (rule approve_rental_Inr_cases)
  show ?thesis
  proof (cases "action = ''approve''")
    case True
    define e where "e = (case r_endDate rental of Some e \<Rightarrow> e
                   | None \<Rightarrow> toISODate (setFullYear_plus z (new_Date (r_startDate rental)) 1))"
    from ok h True have "rentals s' = updateById r_id (rentals s) rentalId
                                       (\<lambda>r. r\<lparr>r_status := Active, r_endDate := Some e\<rparr>)"
      by (auto simp add: approve_rental_def e_def)
    with h(4,7) show ?thesis
      by (intro exI [of _ rental] exI [of _ "\<lambda>r. r\<lparr>r_status := Active, r_endDate := Some e\<rparr>"]) simp
  next
    case False
    with h have d: "action = ''decline''" by simp
    from ok h d have "rentals s' = updateById r_id (rentals s) rentalId
                                       (\<lambda>r. r\<lparr>r_status := Cancelled\<rparr>)"
      by (auto simp add: approve_rental_def)
    with h(4,7) show ?thesis
      by (intro exI [of _ rental] exI [of _ "\<lambda>r. r\<lparr>r_status := Cancelled\<rparr>"]) simp
  qed
qed

text \<open>
  C1 (as amended). Approve Rental makes no availability check: it turns the pending Rental
  into an active one whatever other Rentals its property has. With unique rental ids, an
  approval (or a decline) leaves the blocking Rentals of every other property as they were
  and adds at most one to those of the Rental's own property, at every time \<open>t\<close>. So the
  bound of one blocking Rental per property is kept by an approval exactly where no Rental
  of that property was blocking before it.
\<close>

theorem approve_rental_blocking:
  assumes ok: "approve_rental z cred rentalId action s = Inr s'"
      and ids: "distinct (map r_id (rentals s))"
  shows "\<exists>rental. findById r_id (rentals s) rentalId = Some rental \<and> r_status rental = Pending \<and>
           (\<forall>P t. P \<noteq> r_propertyId rental \<longrightarrow>
                    activeRentals P t (rentals s') = activeRentals P t (rentals s)) \<and>
           (\<forall>t. length (activeRentals (r_propertyId rental) t (rentals s'))
                   \<le> length (activeRentals (r_propertyId rental) t (rentals s)) + 1) \<and>
           (\<forall>t. activeRentals (r_propertyId rental) t (rentals s) = [] \<longrightarrow>
                   length (activeRentals (r_propertyId rental) t (rentals s')) \<le> 1)"
proof -
  from approve_rental_rentals [OF ok] obtain rental f where
    found: "findById r_id (rentals s) rentalId = Some rental" and
    pend: "r_status rental = Pending" and
    f: "\<And>r. r_propertyId (f r) = r_propertyId r" and
    s': "rentals s' = updateById r_id (rentals s) rentalId f"
    by blast
  have other: "activeRentals P t (rentals s') = activeRentals P t (rentals s)"
    if "P \<noteq> r_propertyId rental" for P t
  proof -
    have "y = rental" if "y \<in> set (rentals s)" "r_id y = rentalId" for y
      using findById_distinct_unique [OF ids found that] .
    with that f show ?thesis
      unfolding activeRentals_def s'
      by (intro filter_updateById_same) auto
  qed
  have le: "length (activeRentals (r_propertyId rental) t (rentals s'))
              \<le> length (activeRentals (r_propertyId rental) t (rentals s)) + 1" for t
    unfolding activeRentals_def s' by (rule filter_updateById_le [OF ids])
  have one: "length (activeRentals (r_propertyId rental) t (rentals s')) \<le> 1"
    if "activeRentals (r_propertyId rental) t (rentals s) = []" for t
    using le [of t] that by simp
  from found pend other le one show ?thesis by blast
qed

text \<open>
  On the example store with the single pending request \<open>r1\<close>: after the approval \<open>p1\<close> has
  one blocking Rental.
\<close>

theorem approve_rental_blocking_witness:
  "distinct (map r_id (rentals ex_requested)) \<and>
   approve_rental (fixed_zone 0) (Token ''l1'' ''landlord'') ''r1'' ''approve'' ex_requested = Inr ex_rented \<and>
   activeRentals ''p1'' ex_now (rentals ex_requested) = [] \<and>
   length (activeRentals ''p1'' ex_now (rentals ex_rented)) \<le> 1"
proof -
  have ids: "distinct (map r_id (rentals ex_requested))"
    by (simp add: ex_defs ex_requested_def ex_rented_def)
  have ok: "approve_rental (fixed_zone 0) (Token ''l1'' ''landlord'') ''r1'' ''approve'' ex_requested = Inr ex_rented"
    by (simp add: approve_rental_def findById_def updateById_def ex_defs ex_requested_def
          ex_rented_def)
  have found: "findById r_id (rentals ex_requested) ''r1'' = Some (ex_rental ''r1'' ''t1'' ''p1'' Pending)"
    by (simp add: findById_def ex_defs ex_requested_def ex_rented_def)
  have pid: "r_propertyId (ex_rental ''r1'' ''t1'' ''p1'' Pending) = ''p1''"
    by (simp add: ex_defs ex_requested_def ex_rented_def)
  have none: "activeRentals ''p1'' ex_now (rentals ex_requested) = []"
    by (simp add: activeRentals_def ex_defs ex_requested_def ex_rented_def)
  from approve_rental_blocking [OF ok ids] found pid none
  have "length (activeRentals ''p1'' ex_now (rentals ex_rented)) \<le> 1"
    by auto
  with ids ok none show ?thesis by simp
qed

text \<open>
  The claim as stated fails: two tenants request the listed property \<open>p1\<close>, both requests
  are accepted (a pending request does not make the property unavailable), and the landlord
  approves the first and then the second. Both approvals succeed, and at the time of the
  approvals \<open>p1\<close> has two blocking Rentals.
\<close>

theorem two_approvals_counterexample:
  "(case ex_two_approvals of
      Inl e \<Rightarrow> 0
    | Inr s \<Rightarrow> card (set (activeRentals ''p1'' ex_now (rentals s)))) = 2"
proof -
  have s1: "request_rental (fixed_zone 0) (Token ''t1'' ''tenant'') ''p1'' (Some 2) ''r1'' ex_now
              ex_listed = Inr ex_requested"
    using ex_window
    by (simp add: request_rental_def findById_def Let_def ex_rec_defs ex_listed_def
          ex_requested_def)
  have s2: "request_rental (fixed_zone 0) (Token ''t2'' ''tenant'') ''p1'' (Some 2) ''r2'' ex_now
              ex_requested =
            Inr (ex_store [ex_property ''p1'' True]
                   [ex_rental ''r1'' ''t1'' ''p1'' Pending, ex_rental ''r2'' ''t2'' ''p1'' Pending]
                   [])"
    using ex_window
    by (simp add: request_rental_def findById_def Let_def ex_rec_defs ex_requested_def)
  have s3: "approve_rental (fixed_zone 0) (Token ''l1'' ''landlord'') ''r1'' ''approve''
              (ex_store [ex_property ''p1'' True]
                 [ex_rental ''r1'' ''t1'' ''p1'' Pending, ex_rental ''r2'' ''t2'' ''p1'' Pending]
                 []) =
            Inr (ex_store [ex_property ''p1'' False]
                   [ex_rental ''r1'' ''t1'' ''p1'' Active, ex_rental ''r2'' ''t2'' ''p1'' Pending]
                   [])"
    by (simp add: approve_rental_def findById_def updateById_def Let_def ex_rec_defs)
  have s4: "approve_rental (fixed_zone 0) (Token ''l1'' ''landlord'') ''r2'' ''approve''
              (ex_store [ex_property ''p1'' False]
                 [ex_rental ''r1'' ''t1'' ''p1'' Active, ex_rental ''r2'' ''t2'' ''p1'' Pending]
                 []) =
            Inr (ex_store [ex_property ''p1'' False]
                   [ex_rental ''r1'' ''t1'' ''p1'' Active, ex_rental ''r2'' ''t2'' ''p1'' Active]
                   [])"
    by (simp add: approve_rental_def findById_def updateById_def Let_def ex_rec_defs)
  have run: "ex_two_approvals =
             Inr (ex_store [ex_property ''p1'' False]
                    [ex_rental ''r1'' ''t1'' ''p1'' Active, ex_rental ''r2'' ''t2'' ''p1'' Active]
                    [])"
    by (simp add: ex_two_approvals_def and_then_def s1 s2 s3 s4)
  show ?thesis
    using ex_window(6)
    by (simp add: run activeRentals_def ex_rec_defs)
qed

subsection \<open>Requesting a rental\<close>




subsection \<open>Rental durations\<close>

text \<open>
  In a zone at a fixed offset of 0 up to 24 hours east of UTC, midnight UTC of a day is a
  time of the same day on the wall clock. There the month difference of two calendar
  dates is the one their strings show, and \<^verbatim>\<open>setMonth\<close> on a day up to the 28th gives
  the same day of the month, the given number of months on.
\<close>

lemma make_date_in_range:
  assumes "1 \<le> m" "m \<le> 12" "d \<le> days_in_month y m"
  shows "make_date y (int m - 1) d = \<lparr>d_year = y, d_month = m, d_day = d\<rparr>"
proof -
  from assms have "(int m - 1) div 12 = 0" "(int m - 1) mod 12 = int m - 1"
    by simp_all
  moreover from assms have "Suc (nat (int m - 1)) = m" by linarith
  ultimately show ?thesis
    using assms(3) by (simp add: make_date_def Let_def)
qed

lemma new_Date_calendar_valid:
  "calendar_valid a \<Longrightarrow> new_Date a = \<lparr>i_date = a, i_ms = 0\<rparr>"
  by (simp add: new_Date_def calendar_valid_def make_date_in_range)

lemma new_Date_day_le_28:
  assumes "parses a" "d_day a \<le> 28"
  shows "new_Date a = \<lparr>i_date = a, i_ms = 0\<rparr>"
proof -
  from assms(2) have "d_day a \<le> days_in_month (d_year a) (d_month a)"
    by (simp add: days_in_month_def)
  with assms(1) show ?thesis
    by (simp add: new_Date_def parses_def make_date_in_range)
qed

lemma LocalTime_fixed_zone_midnight:
  "0 \<le> n \<Longrightarrow> n < 1440 \<Longrightarrow>
     LocalTime (fixed_zone n) \<lparr>i_date = a, i_ms = 0\<rparr> = \<lparr>i_date = a, i_ms = nat (n * 60000)\<rparr>"
  by (simp add: fixed_zone_def plus_ms_def Let_def)

lemma UTC_fixed_zone_midnight:
  "0 \<le> n \<Longrightarrow> n < 1440 \<Longrightarrow>
     UTC (fixed_zone n) \<lparr>i_date = a, i_ms = nat (n * 60000)\<rparr> = \<lparr>i_date = a, i_ms = 0\<rparr>"
  by (simp add: fixed_zone_def plus_ms_def Let_def)

lemma monthsDiff_fixed_zone:
  assumes "0 \<le> n" "n < 1440" "calendar_valid sd" "calendar_valid ed"
  shows "monthsDiff (fixed_zone n) sd ed = month_span sd ed"
  using assms
  by (simp add: monthsDiff_def getFullYear_def getMonth_def new_Date_calendar_valid
        LocalTime_fixed_zone_midnight month_span_def)

lemma setMonth_plus_fixed_zone:
  assumes "0 \<le> n" "n < 1440" "parses a" "d_day a \<le> 28"
  shows "toISODate (setMonth_plus (fixed_zone n) (new_Date a) k) = plus_whole_months a k"
proof -
  have "setMonth_plus (fixed_zone n) (new_Date a) k =
          UTC (fixed_zone n) \<lparr>i_date = plus_whole_months a k, i_ms = nat (n * 60000)\<rparr>"
    using assms
    by (simp add: setMonth_plus_def Let_def new_Date_day_le_28 LocalTime_fixed_zone_midnight
          make_date_plus_whole_months)
  then show ?thesis
    using assms by (simp add: UTC_fixed_zone_midnight toISODate_def)
qed

lemma request_rental_Inr_cases:
  assumes "request_rental z cred propertyId rentalDuration newId now s = Inr s'"
      and "findById p_id (properties s) propertyId = Some property"
      and "p_startDate property = Some sd"
      and "p_endDate property = Some ed"
      and "parses sd" and "parses ed"
  obtains userId where
    "cred = Token userId ''tenant''"
    "monthsDiff z sd ed \<le>
       (case rentalDuration of
          Some r \<Rightarrow> if r \<noteq> 0 then r else monthsDiff z sd ed
        | None \<Rightarrow> monthsDiff z sd ed)"
    "(case rentalDuration of
        Some r \<Rightarrow> if r \<noteq> 0 then r else monthsDiff z sd ed
      | None \<Rightarrow> monthsDiff z sd ed) \<le> 24"
    "s' = s\<lparr>rentals := rentals s @
              [\<lparr>r_id = newId, r_tenantId = userId, r_landlordId = p_ownerId property,
                r_propertyId = propertyId,
                r_startDate = (if instant_lt (new_Date sd) now then toISODate now else sd),
                r_endDate =
                  Some (toISODate
                          (setMonth_plus z
                             (new_Date (if instant_lt (new_Date sd) now then toISODate now else sd))
                             (case rentalDuration of
                                Some r \<Rightarrow> if r \<noteq> 0 then r else monthsDiff z sd ed
                              | None \<Rightarrow> monthsDiff z sd ed))),
                r_status = Pending, r_monthlyRent = p_rent property, r_createdAt = now\<rparr>]\<rparr>"
  using assms unfolding request_rental_def
  by (auto simp: Let_def split: credential.splits if_splits option.splits)

text \<open>
  C3 (as amended). For a Property with a startDate/endDate window (two date strings that
  parse), a requested duration other than 0 that is less than the window's month-span or
  greater than 24 is rejected and changes nothing. A requested duration of 0 is handled
  exactly as a request that gives no duration: the window's month-span is used. An
  accepted request, with \<open>d\<close> the requested duration or, for 0 or none, the window's
  month-span, has \<open>d\<close> between the span and 24 and appends one pending Rental on the
  property whose startDate is the Property's startDate if that is not before now, else
  today; when the server's zone is at a fixed offset of 0 up to 24 hours east of UTC and
  the start day is the 1st to the 28th, its endDate is the same day of the month \<open>d\<close>
  months after the startDate. The window's month-span is the difference in months that
  \<^verbatim>\<open>getFullYear\<close> and \<^verbatim>\<open>getMonth\<close> give in the server's zone; in such a zone and for two
  calendar dates it is the difference in months of the two strings.
\<close>

theorem request_rental_duration:
  assumes "findById p_id (properties s) propertyId = Some property"
      and "p_startDate property = Some sd"
      and "p_endDate property = Some ed"
      and "parses sd" and "parses ed"
  shows "(d \<noteq> 0 \<and> (d < monthsDiff z sd ed \<or> 24 < d) \<longrightarrow>
            isl (request_rental z cred propertyId (Some d) newId now s) \<and>
            run (request_rental z cred propertyId (Some d) newId now) s = s) \<and>
         request_rental z cred propertyId (Some 0) newId now s
           = request_rental z cred propertyId None newId now s \<and>
         (request_rental z cred propertyId rentalDuration newId now s = Inr s' \<and>
          d = (case rentalDuration of
                 Some r \<Rightarrow> if r \<noteq> 0 then r else monthsDiff z sd ed
               | None \<Rightarrow> monthsDiff z sd ed) \<longrightarrow>
            monthsDiff z sd ed \<le> d \<and> d \<le> 24 \<and>
            (\<exists>new. rentals s' = rentals s @ [new] \<and> r_status new = Pending \<and>
               r_propertyId new = propertyId \<and>
               r_startDate new = (if instant_lt (new_Date sd) now then toISODate now else sd) \<and>
               (z = fixed_zone n \<and> 0 \<le> n \<and> n < 1440 \<and> parses (r_startDate new) \<and>
                d_day (r_startDate new) \<le> 28 \<longrightarrow>
                  r_endDate new = Some (plus_whole_months (r_startDate new) d)))) \<and>
         (z = fixed_zone n \<and> 0 \<le> n \<and> n < 1440 \<and> calendar_valid sd \<and> calendar_valid ed \<longrightarrow>
            monthsDiff z sd ed = month_span sd ed)"
proof (intro conjI impI)
  assume a: "d \<noteq> 0 \<and> (d < monthsDiff z sd ed \<or> 24 < d)"
  with assms show 1: "isl (request_rental z cred propertyId (Some d) newId now s)"
    unfolding request_rental_def
    by (auto simp: Let_def split: credential.splits)
  then show "run (request_rental z cred propertyId (Some d) newId now) s = s"
    by (auto simp: run_def isl_def)
next
  show "request_rental z cred propertyId (Some 0) newId now s
          = request_rental z cred propertyId None newId now s"
    unfolding request_rental_def
    by (simp cong: credential.case_cong option.case_cong if_cong)
next
  assume ok: "request_rental z cred propertyId rentalDuration newId now s = Inr s' \<and>
          d = (case rentalDuration of
                 Some r \<Rightarrow> if r \<noteq> 0 then r else monthsDiff z sd ed
               | None \<Rightarrow> monthsDiff z sd ed)"
  define start where "start = (if instant_lt (new_Date sd) now then toISODate now else sd)"
  from ok have ok': "request_rental z cred propertyId rentalDuration newId now s = Inr s'"
    by simp
  from ok have d: "d = (case rentalDuration of
                          Some r \<Rightarrow> if r \<noteq> 0 then r else monthsDiff z sd ed
                        | None \<Rightarrow> monthsDiff z sd ed)"
    by simp
  from request_rental_Inr_cases [OF ok' assms] obtain userId where
    h: "monthsDiff z sd ed \<le> d" "d \<le> 24"
       "s' = s\<lparr>rentals := rentals s @
              [\<lparr>r_id = newId, r_tenantId = userId, r_landlordId = p_ownerId property,
                r_propertyId = propertyId, r_startDate = start,
                r_endDate = Some (toISODate (setMonth_plus z (new_Date start) d)),
                r_status = Pending, r_monthlyRent = p_rent property, r_createdAt = now\<rparr>]\<rparr>"
    unfolding d start_def by blast
  from h(1) show "monthsDiff z sd ed \<le> d" .
  from h(2) show "d \<le> 24" .
  show "\<exists>new. rentals s' = rentals s @ [new] \<and> r_status new = Pending \<and>
               r_propertyId new = propertyId \<and>
               r_startDate new = (if instant_lt (new_Date sd) now then toISODate now else sd) \<and>
               (z = fixed_zone n \<and> 0 \<le> n \<and> n < 1440 \<and> parses (r_startDate new) \<and>
                d_day (r_startDate new) \<le> 28 \<longrightarrow>
                  r_endDate new = Some (plus_whole_months (r_startDate new) d))"
    unfolding h(3) start_def [symmetric]
    by (rule exI [of _ "\<lparr>r_id = newId, r_tenantId = userId, r_landlordId = p_ownerId property,
                r_propertyId = propertyId, r_startDate = start,
                r_endDate = Some (toISODate (setMonth_plus z (new_Date start) d)),
                r_status = Pending, r_monthlyRent = p_rent property, r_createdAt = now\<rparr>"])
       (simp add: setMonth_plus_fixed_zone)
next
  assume "z = fixed_zone n \<and> 0 \<le> n \<and> n < 1440 \<and> calendar_valid sd \<and> calendar_valid ed"
  then show "monthsDiff z sd ed = month_span sd ed"
    by (simp add: monthsDiff_fixed_zone)
qed

text \<open>
  On the spec's scenario A (window 2025-03-01 to 2025-05-01, asked on 2025-01-10) with
  the server in UTC: a duration of 1 and a duration of 25 are rejected; a duration of 2, no
  duration and a duration of 0 each give a pending Rental from 2025-03-01 to 2025-05-01.
  A server six hours east of UTC gives the same Rental for a duration of 2.
\<close>

theorem request_rental_duration_witness:
  "parses (mk_date 2025 3 1) \<and> parses (mk_date 2025 5 1) \<and>
   isl (request_rental (fixed_zone 0) (Token ''t1'' ''tenant'') ''p1'' (Some 1) ''r1'' ex_now
          ex_listed) \<and>
   isl (request_rental (fixed_zone 0) (Token ''t1'' ''tenant'') ''p1'' (Some 25) ''r1'' ex_now
          ex_listed) \<and>
   request_rental (fixed_zone 0) (Token ''t1'' ''tenant'') ''p1'' (Some 2) ''r1'' ex_now ex_listed
     = Inr ex_requested \<and>
   request_rental (fixed_zone 0) (Token ''t1'' ''tenant'') ''p1'' None ''r1'' ex_now ex_listed
     = Inr ex_requested \<and>
   request_rental (fixed_zone 0) (Token ''t1'' ''tenant'') ''p1'' (Some 0) ''r1'' ex_now ex_listed
     = Inr ex_requested \<and>
   monthsDiff (fixed_zone 0) (mk_date 2025 3 1) (mk_date 2025 5 1) = 2 \<and>
   month_span (mk_date 2025 3 1) (mk_date 2025 5 1) = 2 \<and>
   map r_status (rentals ex_requested) = [Pending] \<and>
   map r_startDate (rentals ex_requested) = [mk_date 2025 3 1] \<and>
   map r_endDate (rentals ex_requested) = [Some (plus_whole_months (mk_date 2025 3 1) 2)] \<and>
   plus_whole_months (mk_date 2025 3 1) 2 = mk_date 2025 5 1 \<and>
   request_rental (fixed_zone 360) (Token ''t1'' ''tenant'') ''p1'' (Some 2) ''r1'' ex_now
     ex_listed = Inr ex_requested"
proof -
  have f: "findById p_id (properties ex_listed) ''p1'' = Some (ex_property ''p1'' True)"
    by (simp add: findById_def ex_rec_defs ex_listed_def)
  have sd: "p_startDate (ex_property ''p1'' True) = Some (mk_date 2025 3 1)"
    and ed: "p_endDate (ex_property ''p1'' True) = Some (mk_date 2025 5 1)"
    by (simp_all add: ex_rec_defs)
  have cv: "calendar_valid (mk_date 2025 3 1)" "calendar_valid (mk_date 2025 5 1)"
    by (simp_all add: calendar_valid_def days_in_month_def mk_date_def)
  have sp: "month_span (mk_date 2025 3 1) (mk_date 2025 5 1) = 2"
    by (simp add: month_span_def mk_date_def)
  have p: "plus_whole_months (mk_date 2025 3 1) 2 = mk_date 2025 5 1"
    by (simp add: plus_whole_months_def mk_date_def)
  have day: "d_day (mk_date 2025 3 1) \<le> 28"
    by (simp add: mk_date_def)
  note inst = request_rental_duration
    [OF f sd ed ex_window(1) ex_window(2), where cred = "Token ''t1'' ''tenant''"
       and newId = "''r1''" and now = ex_now]
  have ok: "request_rental (fixed_zone 0) (Token ''t1'' ''tenant'') ''p1'' (Some 2) ''r1'' ex_now
              ex_listed = Inr ex_requested"
    using ex_window
    by (simp add: request_rental_def findById_def Let_def ex_rec_defs ex_listed_def
          ex_requested_def)
  have none: "request_rental (fixed_zone 0) (Token ''t1'' ''tenant'') ''p1'' None ''r1'' ex_now
                ex_listed = Inr ex_requested"
    using ex_window
    by (simp add: request_rental_def findById_def Let_def ex_rec_defs ex_listed_def
          ex_requested_def)
  from inst [where z = "fixed_zone 0" and d = 1] ex_window(3)
  have r1: "isl (request_rental (fixed_zone 0) (Token ''t1'' ''tenant'') ''p1'' (Some 1) ''r1''
                   ex_now ex_listed)"
    by simp
  from inst [where z = "fixed_zone 0" and d = 25]
  have r25: "isl (request_rental (fixed_zone 0) (Token ''t1'' ''tenant'') ''p1'' (Some 25) ''r1''
                    ex_now ex_listed)"
    by simp
  from inst [where z = "fixed_zone 0"] none
  have zero: "request_rental (fixed_zone 0) (Token ''t1'' ''tenant'') ''p1'' (Some 0) ''r1''
                ex_now ex_listed = Inr ex_requested"
    by simp
  from inst [where z = "fixed_zone 0" and n = 0] cv sp
  have span: "monthsDiff (fixed_zone 0) (mk_date 2025 3 1) (mk_date 2025 5 1) = 2"
    by simp
  from inst [where z = "fixed_zone 0" and n = 0 and d = 2 and rentalDuration = "Some 2"
               and s' = ex_requested, THEN conjunct2, THEN conjunct2, THEN conjunct1] ok
  have "\<exists>new. rentals ex_requested = rentals ex_listed @ [new] \<and> r_status new = Pending \<and>
          r_propertyId new = ''p1'' \<and>
          r_startDate new = (if instant_lt (new_Date (mk_date 2025 3 1)) ex_now
                             then toISODate ex_now else mk_date 2025 3 1) \<and>
          (fixed_zone 0 = fixed_zone 0 \<and> (0::int) \<le> 0 \<and> (0::int) < 1440 \<and>
           parses (r_startDate new) \<and> d_day (r_startDate new) \<le> 28 \<longrightarrow>
             r_endDate new = Some (plus_whole_months (r_startDate new) 2))"
    by simp
  then obtain new where
    n: "rentals ex_requested = rentals ex_listed @ [new]" "r_status new = Pending"
       "r_startDate new = (if instant_lt (new_Date (mk_date 2025 3 1)) ex_now
                             then toISODate ex_now else mk_date 2025 3 1)"
       "fixed_zone 0 = fixed_zone 0 \<and> (0::int) \<le> 0 \<and> (0::int) < 1440 \<and>
        parses (r_startDate new) \<and> d_day (r_startDate new) \<le> 28 \<longrightarrow>
          r_endDate new = Some (plus_whole_months (r_startDate new) 2)"
    by blast
  have st: "r_startDate new = mk_date 2025 3 1"
    using n(3) ex_window(4) by simp
  with n(4) ex_window(1) day
  have en: "r_endDate new = Some (plus_whole_months (mk_date 2025 3 1) 2)"
    by simp
  have l: "rentals ex_listed = []" by (simp add: ex_rec_defs ex_listed_def)
  have m6: "monthsDiff (fixed_zone 360) (mk_date 2025 3 1) (mk_date 2025 5 1) = 2"
    using cv sp by (simp add: monthsDiff_fixed_zone)
  have e6: "toISODate (setMonth_plus (fixed_zone 360) (new_Date (mk_date 2025 3 1)) 2)
              = mk_date 2025 5 1"
    using ex_window(1) day p by (simp add: setMonth_plus_fixed_zone)
  have dhaka: "request_rental (fixed_zone 360) (Token ''t1'' ''tenant'') ''p1'' (Some 2) ''r1''
                 ex_now ex_listed = Inr ex_requested"
    using ex_window(1,2,4) m6 e6
    by (simp add: request_rental_def findById_def Let_def ex_rec_defs ex_listed_def
          ex_requested_def)
  have sts: "map r_status (rentals ex_requested) = [Pending]"
    "map r_startDate (rentals ex_requested) = [mk_date 2025 3 1]"
    "map r_endDate (rentals ex_requested) = [Some (plus_whole_months (mk_date 2025 3 1) 2)]"
    using n(1,2) st en l by simp_all
  from ex_window(1,2) r1 r25 ok none zero span sp sts p dhaka show ?thesis
    by (intro conjI)
qed

text \<open>
  The claim as stated fails in three ways. A requested duration of 0, which is less than
  the two-month span of the window, is not rejected: the request is accepted with the
  window's span as duration. With the server in UTC and a window from 2025-03-31 to
  2025-06-30, the accepted duration 3 gives a Rental from 2025-03-31 with endDate
  2025-07-01, four months on by the calendar and not three. With the server five hours
  west of UTC (and no daylight saving), the claim's own example, duration 2 on the window
  from 2025-03-01, gives endDate 2025-04-29 and not 2025-05-01. With that server and a
  window from 2025-03-02 to 2025-05-01, whose month-span by the two dates is 2, a duration
  of 1 is accepted: on the server's wall clock the window runs from 1 March to 30 April,
  which \<^verbatim>\<open>getMonth\<close> takes for one month.
\<close>

theorem request_rental_duration_counterexample:
  "month_span (mk_date 2025 3 1) (mk_date 2025 5 1) = 2 \<and>
   request_rental (fixed_zone 0) (Token ''t1'' ''tenant'') ''p1'' (Some 0) ''r1'' ex_now ex_listed
     = Inr (ex_store [ex_property ''p1'' True] [ex_rental ''r1'' ''t1'' ''p1'' Pending] []) \<and>
   request_rental (fixed_zone 0) (Token ''t1'' ''tenant'') ''p1'' (Some 3) ''r1'' ex_now
       ex_listed_month_end
     = Inr (ex_store [(ex_property ''p1'' True)\<lparr>p_startDate := Some (mk_date 2025 3 31),
                                                  p_endDate := Some (mk_date 2025 6 30)\<rparr>]
              [(ex_rental ''r1'' ''t1'' ''p1'' Pending)\<lparr>r_startDate := mk_date 2025 3 31,
                                                       r_endDate := Some (mk_date 2025 7 1)\<rparr>]
              []) \<and>
   month_span (mk_date 2025 3 31) (mk_date 2025 7 1) = 4 \<and>
   request_rental (fixed_zone (- 300)) (Token ''t1'' ''tenant'') ''p1'' (Some 2) ''r1'' ex_now
       ex_listed
     = Inr (ex_store [ex_property ''p1'' True]
              [(ex_rental ''r1'' ''t1'' ''p1'' Pending)\<lparr>r_endDate := Some (mk_date 2025 4 29)\<rparr>]
              []) \<and>
   month_span (mk_date 2025 3 2) (mk_date 2025 5 1) = 2 \<and>
   request_rental (fixed_zone (- 300)) (Token ''t1'' ''tenant'') ''p1'' (Some 1) ''r1'' ex_now
       (ex_store [(ex_property ''p1'' True)\<lparr>p_startDate := Some (mk_date 2025 3 2)\<rparr>] [] [])
     = Inr (ex_store [(ex_property ''p1'' True)\<lparr>p_startDate := Some (mk_date 2025 3 2)\<rparr>]
              [(ex_rental ''r1'' ''t1'' ''p1'' Pending)\<lparr>r_startDate := mk_date 2025 3 2,
                                                       r_endDate := Some (mk_date 2025 4 2)\<rparr>]
              [])"
proof -
  have sp: "month_span (mk_date 2025 3 1) (mk_date 2025 5 1) = 2"
    "month_span (mk_date 2025 3 31) (mk_date 2025 7 1) = 4"
    "month_span (mk_date 2025 3 2) (mk_date 2025 5 1) = 2"
    by (simp_all add: month_span_def mk_date_def)
  have zero: "request_rental (fixed_zone 0) (Token ''t1'' ''tenant'') ''p1'' (Some 0) ''r1''
                ex_now ex_listed
              = Inr (ex_store [ex_property ''p1'' True] [ex_rental ''r1'' ''t1'' ''p1'' Pending] [])"
    using ex_window
    by (simp add: request_rental_def findById_def Let_def ex_rec_defs ex_listed_def)
  have w2: "parses (mk_date 2025 3 31)" "parses (mk_date 2025 6 30)"
    "monthsDiff (fixed_zone 0) (mk_date 2025 3 31) (mk_date 2025 6 30) = 3"
    "\<not> instant_lt (new_Date (mk_date 2025 3 31)) ex_now"
    "toISODate (setMonth_plus (fixed_zone 0) (new_Date (mk_date 2025 3 31)) 3) = mk_date 2025 7 1"
    by (simp_all add: date_defs fixed_zone_0 Let_def ex_now_def mk_date_def)
  have over: "request_rental (fixed_zone 0) (Token ''t1'' ''tenant'') ''p1'' (Some 3) ''r1'' ex_now
                ex_listed_month_end
     = Inr (ex_store [(ex_property ''p1'' True)\<lparr>p_startDate := Some (mk_date 2025 3 31),
                                                  p_endDate := Some (mk_date 2025 6 30)\<rparr>]
              [(ex_rental ''r1'' ''t1'' ''p1'' Pending)\<lparr>r_startDate := mk_date 2025 3 31,
                                                       r_endDate := Some (mk_date 2025 7 1)\<rparr>]
              [])"
    using w2
    by (simp add: request_rental_def findById_def Let_def ex_rec_defs ex_listed_month_end_def)
  have w3: "monthsDiff (fixed_zone (- 300)) (mk_date 2025 3 1) (mk_date 2025 5 1) = 2"
    "toISODate (setMonth_plus (fixed_zone (- 300)) (new_Date (mk_date 2025 3 1)) 2)
       = mk_date 2025 4 29"
    by (simp_all add: date_defs zone_defs Let_def mk_date_def)
  have west: "request_rental (fixed_zone (- 300)) (Token ''t1'' ''tenant'') ''p1'' (Some 2) ''r1''
                ex_now ex_listed
     = Inr (ex_store [ex_property ''p1'' True]
              [(ex_rental ''r1'' ''t1'' ''p1'' Pending)\<lparr>r_endDate := Some (mk_date 2025 4 29)\<rparr>]
              [])"
    using ex_window(1,2,4) w3
    by (simp add: request_rental_def findById_def Let_def ex_rec_defs ex_listed_def)
  have w4: "parses (mk_date 2025 3 2)"
    "monthsDiff (fixed_zone (- 300)) (mk_date 2025 3 2) (mk_date 2025 5 1) = 1"
    "\<not> instant_lt (new_Date (mk_date 2025 3 2)) ex_now"
    "toISODate (setMonth_plus (fixed_zone (- 300)) (new_Date (mk_date 2025 3 2)) 1)
       = mk_date 2025 4 2"
    by (simp_all add: date_defs zone_defs Let_def ex_now_def mk_date_def)
  have short: "request_rental (fixed_zone (- 300)) (Token ''t1'' ''tenant'') ''p1'' (Some 1) ''r1''
                 ex_now
                 (ex_store [(ex_property ''p1'' True)\<lparr>p_startDate := Some (mk_date 2025 3 2)\<rparr>]
                    [] [])
     = Inr (ex_store [(ex_property ''p1'' True)\<lparr>p_startDate := Some (mk_date 2025 3 2)\<rparr>]
              [(ex_rental ''r1'' ''t1'' ''p1'' Pending)\<lparr>r_startDate := mk_date 2025 3 2,
                                                       r_endDate := Some (mk_date 2025 4 2)\<rparr>]
              [])"
    using ex_window(2) w4
    by (simp add: request_rental_def findById_def Let_def ex_rec_defs)
  from sp(1) zero over sp(2) west sp(3) short show ?thesis
    by (intro conjI)
qed

subsection \<open>Changing the first record with a given id\<close>

lemma update_first_split:
  "findById idf xs i = Some x \<Longrightarrow>
     \<exists>pre post. xs = pre @ x # post \<and> findById idf pre i = None \<and>
       (\<forall>f. update_first (\<lambda>y. idf y = i) f xs = pre @ f x # post)"
proof (induction xs)
  case Nil
  then show ?case by (simp add: findById_def)
next
  case (Cons a xs)
  show ?case
  proof (cases "idf a = i")
    case True
    with Cons.prems have "a = x" by (simp add: findById_def)
    with True have "a # xs = [] @ x # xs \<and> findById idf [] i = None \<and>
        (\<forall>f. update_first (\<lambda>y. idf y = i) f (a # xs) = [] @ f x # xs)"
      by (simp add: findById_def)
    then show ?thesis by blast
  next
    case False
    with Cons.prems have "findById idf xs i = Some x" by (simp add: findById_def)
    from Cons.IH [OF this] obtain pre post where
      h: "xs = pre @ x # post" "findById idf pre i = None"
         "\<forall>f. update_first (\<lambda>y. idf y = i) f xs = pre @ f x # post"
      by blast
    from h False have "a # xs = (a # pre) @ x # post \<and> findById idf (a # pre) i = None \<and>
        (\<forall>f. update_first (\<lambda>y. idf y = i) f (a # xs) = (a # pre) @ f x # post)"
      by (simp add: findById_def)
    then show ?thesis by blast
  qed
qed

lemma update_first_at:
  "findById idf pre i = None \<Longrightarrow> idf x = i \<Longrightarrow>
     update_first (\<lambda>y. idf y = i) g (pre @ x # post) = pre @ g x # post"
  by (induction pre) (auto simp: findById_def split: if_splits)

lemma findById_at:
  "findById idf pre i = None \<Longrightarrow> idf x = i \<Longrightarrow> findById idf (pre @ x # post) i = Some x"
  by (induction pre) (auto simp: findById_def split: if_splits)

subsection \<open>Terminations\<close>

lemma request_termination_Inr_cases:
  assumes "request_termination z cred rentalId (Some red) reason newId now s = Inr s'"
  obtains userId rental where
    "cred = Token userId ''tenant''"
    "rentalId \<noteq> []"
    "findById r_id (rentals s) rentalId = Some rental"
    "r_tenantId rental = userId"
    "r_status rental = Active"
    "find (\<lambda>t. t_rentalId t = rentalId \<and> t_status t = RequestPending) (terminations s) = None"
    "\<not> (parses red \<and> instant_lt (new_Date red) (setMonth_plus z now 2))"
    "s' = s\<lparr>terminations := terminations s @
              [\<lparr>t_id = newId, t_rentalId = rentalId, t_tenantId = userId,
                t_landlordId = r_landlordId rental, t_requestedEndDate = red, t_reason = reason,
                t_status = RequestPending, t_createdAt = now, t_updatedAt = now\<rparr>],
            rentals := update_first (\<lambda>r. r_id r = rentalId)
                         (\<lambda>r. r\<lparr>r_status := Terminating, r_endDate := Some red\<rparr>) (rentals s)\<rparr>"
  using assms unfolding request_termination_def
  by (auto simp: Let_def split: credential.splits if_splits option.splits)

text \<open>
  C4. A termination request whose requestedEndDate is earlier than now + 2 months is
  rejected and changes nothing; when the caller is the tenant of an active Rental with no
  pending termination the rejection is the minimum-notice error. Here the requested date
  is a date string that parses, read as midnight UTC of its day (a day its month lacks
  running over into the next month), and now + 2 months is the clock moved on by
  \<^verbatim>\<open>setMonth(getMonth() + 2)\<close> in the server's zone \<open>z\<close>: when the day of the month on
  the server's wall clock is at most 28, the instant with the same wall-clock reading on
  the same day two months on. The tenant of an active Rental with no pending termination
  whose request is not earlier than that is accepted. An accepted request is on an active
  Rental, appends one pending RentalTermination for the requested date, and replaces the
  Rental (the first record with that id) by the same Rental with status terminating and
  endDate overwritten with the requested date; this is written at once, with no landlord
  decision involved. The other collections are untouched.
\<close>

theorem request_termination_notice:
  "(parses red \<and> instant_lt (new_Date red) (setMonth_plus z now 2) \<longrightarrow>
      isl (request_termination z cred rentalId (Some red) reason newId now s) \<and>
      run (request_termination z cred rentalId (Some red) reason newId now) s = s) \<and>
   (parses red \<and> instant_lt (new_Date red) (setMonth_plus z now 2) \<and> rentalId \<noteq> [] \<and>
    findById r_id (rentals s) rentalId = Some rental \<and> r_tenantId rental = userId \<and>
    r_status rental = Active \<and>
    find (\<lambda>t. t_rentalId t = rentalId \<and> t_status t = RequestPending) (terminations s) = None \<longrightarrow>
      request_termination z (Token userId ''tenant'') rentalId (Some red) reason newId now s
        = Inl NoticeTooShort) \<and>
   (\<not> (parses red \<and> instant_lt (new_Date red) (setMonth_plus z now 2)) \<and> rentalId \<noteq> [] \<and>
    findById r_id (rentals s) rentalId = Some rental \<and> r_tenantId rental = userId \<and>
    r_status rental = Active \<and>
    find (\<lambda>t. t_rentalId t = rentalId \<and> t_status t = RequestPending) (terminations s) = None \<longrightarrow>
      \<not> isl (request_termination z (Token userId ''tenant'') rentalId (Some red) reason newId
               now s)) \<and>
   (request_termination z cred rentalId (Some red) reason newId now s = Inr s' \<longrightarrow>
      \<not> (parses red \<and> instant_lt (new_Date red) (setMonth_plus z now 2)) \<and>
      (\<exists>rental t pre post.
         findById r_id (rentals s) rentalId = Some rental \<and> r_status rental = Active \<and>
         terminations s' = terminations s @ [t] \<and>
         t_id t = newId \<and> t_rentalId t = rentalId \<and> t_status t = RequestPending \<and>
         t_requestedEndDate t = red \<and>
         rentals s = pre @ rental # post \<and> findById r_id pre rentalId = None \<and>
         rentals s' = pre @ rental\<lparr>r_status := Terminating, r_endDate := Some red\<rparr> # post \<and>
         findById r_id (rentals s') rentalId
           = Some (rental\<lparr>r_status := Terminating, r_endDate := Some red\<rparr>) \<and>
         properties s' = properties s \<and> payments s' = payments s \<and>
         renewals s' = renewals s \<and> users s' = users s)) \<and>
   (d_day (i_date (LocalTime z now)) \<le> 28 \<longrightarrow>
      setMonth_plus z now 2 =
        UTC z ((LocalTime z now)\<lparr>i_date := plus_whole_months (i_date (LocalTime z now)) 2\<rparr>))"
proof (intro conjI impI)
  assume early: "parses red \<and> instant_lt (new_Date red) (setMonth_plus z now 2)"
  then show 1: "isl (request_termination z cred rentalId (Some red) reason newId now s)"
    unfolding request_termination_def
    by (auto simp: Let_def split: credential.splits option.splits)
  then show "run (request_termination z cred rentalId (Some red) reason newId now) s = s"
    by (auto simp: run_def isl_def)
next
  assume "parses red \<and> instant_lt (new_Date red) (setMonth_plus z now 2) \<and> rentalId \<noteq> [] \<and>
    findById r_id (rentals s) rentalId = Some rental \<and> r_tenantId rental = userId \<and>
    r_status rental = Active \<and>
    find (\<lambda>t. t_rentalId t = rentalId \<and> t_status t = RequestPending) (terminations s) = None"
  then show "request_termination z (Token userId ''tenant'') rentalId (Some red) reason newId now s
        = Inl NoticeTooShort"
    unfolding request_termination_def by (simp add: Let_def)
next
  assume a: "\<not> (parses red \<and> instant_lt (new_Date red) (setMonth_plus z now 2)) \<and>
    rentalId \<noteq> [] \<and>
    findById r_id (rentals s) rentalId = Some rental \<and> r_tenantId rental = userId \<and>
    r_status rental = Active \<and>
    find (\<lambda>t. t_rentalId t = rentalId \<and> t_status t = RequestPending) (terminations s) = None"
  define guard where "guard = (parses red \<and> instant_lt (new_Date red) (setMonth_plus z now 2))"
  from a have "\<not> guard" by (simp add: guard_def)
  with a show "\<not> isl (request_termination z (Token userId ''tenant'') rentalId (Some red) reason
                        newId now s)"
    unfolding request_termination_def guard_def [symmetric]
    by (simp add: Let_def guard_def [symmetric])
next
  assume ok: "request_termination z cred rentalId (Some red) reason newId now s = Inr s'"
  then obtain userId rental where
    h: "findById r_id (rentals s) rentalId = Some rental"
       "r_status rental = Active"
       "\<not> (parses red \<and> instant_lt (new_Date red) (setMonth_plus z now 2))"
       "s' = s\<lparr>terminations := terminations s @
              [\<lparr>t_id = newId, t_rentalId = rentalId, t_tenantId = userId,
                t_landlordId = r_landlordId rental, t_requestedEndDate = red, t_reason = reason,
                t_status = RequestPending, t_createdAt = now, t_updatedAt = now\<rparr>],
            rentals := update_first (\<lambda>r. r_id r = rentalId)
                         (\<lambda>r. r\<lparr>r_status := Terminating, r_endDate := Some red\<rparr>) (rentals s)\<rparr>"
    by (rule request_termination_Inr_cases)
  from h(3) show "\<not> (parses red \<and> instant_lt (new_Date red) (setMonth_plus z now 2))" .
  from update_first_split [OF h(1)] obtain pre post where
    sp: "rentals s = pre @ rental # post" "findById r_id pre rentalId = None"
        "\<forall>f. update_first (\<lambda>y. r_id y = rentalId) f (rentals s) = pre @ f rental # post"
    by blast
  have rid: "r_id rental = rentalId" using h(1) by (rule findById_Some_id)
  have r': "rentals s' = pre @ rental\<lparr>r_status := Terminating, r_endDate := Some red\<rparr> # post"
    using sp(3) by (simp add: h(4))
  have f': "findById r_id (rentals s') rentalId
              = Some (rental\<lparr>r_status := Terminating, r_endDate := Some red\<rparr>)"
    unfolding r' using sp(2) rid by (intro findById_at) simp_all
  let ?t = "\<lparr>t_id = newId, t_rentalId = rentalId, t_tenantId = userId,
                t_landlordId = r_landlordId rental, t_requestedEndDate = red, t_reason = reason,
                t_status = RequestPending, t_createdAt = now, t_updatedAt = now\<rparr>"
  have "findById r_id (rentals s) rentalId = Some rental \<and> r_status rental = Active \<and>
         terminations s' = terminations s @ [?t] \<and>
         t_id ?t = newId \<and> t_rentalId ?t = rentalId \<and> t_status ?t = RequestPending \<and>
         t_requestedEndDate ?t = red \<and>
         rentals s = pre @ rental # post \<and> findById r_id pre rentalId = None \<and>
         rentals s' = pre @ rental\<lparr>r_status := Terminating, r_endDate := Some red\<rparr> # post \<and>
         findById r_id (rentals s') rentalId
           = Some (rental\<lparr>r_status := Terminating, r_endDate := Some red\<rparr>) \<and>
         properties s' = properties s \<and> payments s' = payments s \<and>
         renewals s' = renewals s \<and> users s' = users s"
    using h(1,2) sp(1,2) r' f' by (simp add: h(4))
  then show "\<exists>rental t pre post.
         findById r_id (rentals s) rentalId = Some rental \<and> r_status rental = Active \<and>
         terminations s' = terminations s @ [t] \<and>
         t_id t = newId \<and> t_rentalId t = rentalId \<and> t_status t = RequestPending \<and>
         t_requestedEndDate t = red \<and>
         rentals s = pre @ rental # post \<and> findById r_id pre rentalId = None \<and>
         rentals s' = pre @ rental\<lparr>r_status := Terminating, r_endDate := Some red\<rparr> # post \<and>
         findById r_id (rentals s') rentalId
           = Some (rental\<lparr>r_status := Terminating, r_endDate := Some red\<rparr>) \<and>
         properties s' = properties s \<and> payments s' = payments s \<and>
         renewals s' = renewals s \<and> users s' = users s"
    by blast
next
  assume "d_day (i_date (LocalTime z now)) \<le> 28"
  then show "setMonth_plus z now 2 =
        UTC z ((LocalTime z now)\<lparr>i_date := plus_whole_months (i_date (LocalTime z now)) 2\<rparr>)"
    unfolding setMonth_plus_def Let_def
    by (simp only: make_date_plus_whole_months)
qed

text \<open>
  On the spec's scenario B, asked at noon (UTC) of 2025-01-10 on a server running in UTC
  (so now + 2 months is noon of 2025-03-10): an end date 45 days ahead (2025-02-24) is
  rejected for lack of notice; an end date 65 days ahead (2025-03-16) is accepted, and the
  Rental is at once terminating with endDate 2025-03-16.

  A requested \<^verbatim>\<open>2025-02-30\<close> is read as 2 March 2025: asked at noon (UTC) of 2025-01-01
  on a server running in UTC it is not earlier than now + 2 months (noon of 2025-03-01)
  and is accepted. Asked at 20:00 (UTC) of 2024-12-31, an end date 2025-03-01 is accepted
  by a server running six hours east of UTC, whose wall clock reads 02:00 of 2025-01-01
  (now + 2 months is 20:00 UTC of 2025-02-28), and rejected by a server running in UTC,
  where the day 31 runs over (now + 2 months is 20:00 UTC of 2025-03-03).
\<close>

theorem request_termination_notice_witness:
  "parses (mk_date 2025 2 24) \<and>
   instant_lt (new_Date (mk_date 2025 2 24)) (setMonth_plus (fixed_zone 0) ex_now 2) \<and>
   setMonth_plus (fixed_zone 0) ex_now 2 = \<lparr>i_date = mk_date 2025 3 10, i_ms = 43200000\<rparr> \<and>
   request_termination (fixed_zone 0) (Token ''t1'' ''tenant'') ''r1'' (Some (mk_date 2025 2 24))
       ''moving'' ''term1'' ex_now ex_rented = Inl NoticeTooShort \<and>
   run (request_termination (fixed_zone 0) (Token ''t1'' ''tenant'') ''r1''
          (Some (mk_date 2025 2 24)) ''moving'' ''term1'' ex_now) ex_rented = ex_rented \<and>
   request_termination (fixed_zone 0) (Token ''t1'' ''tenant'') ''r1'' (Some (mk_date 2025 3 16))
       ''moving'' ''term1'' ex_now ex_rented
     = Inr (ex_after_termination Terminating RequestPending) \<and>
   findById r_id (rentals (ex_after_termination Terminating RequestPending)) ''r1''
     = Some ((ex_rental ''r1'' ''t1'' ''p1'' Active)
               \<lparr>r_status := Terminating, r_endDate := Some (mk_date 2025 3 16)\<rparr>) \<and>
   map t_status (terminations (ex_after_termination Terminating RequestPending))
     = [RequestPending] \<and>
   new_Date (mk_date 2025 2 30) = \<lparr>i_date = mk_date 2025 3 2, i_ms = 0\<rparr> \<and>
   \<not> isl (request_termination (fixed_zone 0) (Token ''t1'' ''tenant'') ''r1''
            (Some (mk_date 2025 2 30)) ''moving'' ''term1'' ex_new_year_noon ex_rented) \<and>
   setMonth_plus (fixed_zone 360) ex_new_years_eve 2
     = \<lparr>i_date = mk_date 2025 2 28, i_ms = 72000000\<rparr> \<and>
   \<not> isl (request_termination (fixed_zone 360) (Token ''t1'' ''tenant'') ''r1''
            (Some (mk_date 2025 3 1)) ''moving'' ''term1'' ex_new_years_eve ex_rented) \<and>
   setMonth_plus (fixed_zone 0) ex_new_years_eve 2
     = \<lparr>i_date = mk_date 2025 3 3, i_ms = 72000000\<rparr> \<and>
   request_termination (fixed_zone 0) (Token ''t1'' ''tenant'') ''r1'' (Some (mk_date 2025 3 1))
       ''moving'' ''term1'' ex_new_years_eve ex_rented = Inl NoticeTooShort"
proof -
  have p: "parses (mk_date 2025 2 24)" "parses (mk_date 2025 3 16)" "parses (mk_date 2025 2 30)"
    "parses (mk_date 2025 3 1)"
    by (simp_all add: parses_def mk_date_def)
  have local: "LocalTime (fixed_zone 0) ex_now = ex_now"
    "UTC (fixed_zone 0) \<lparr>i_date = mk_date 2025 3 10, i_ms = 43200000\<rparr>
       = \<lparr>i_date = mk_date 2025 3 10, i_ms = 43200000\<rparr>"
    by (simp_all add: fixed_zone_0 ex_now_def)
  have day: "d_day (i_date (LocalTime (fixed_zone 0) ex_now)) \<le> 28"
    by (simp only: local(1)) (simp add: ex_now_def mk_date_def)
  have feb30: "new_Date (mk_date 2025 2 30) = \<lparr>i_date = mk_date 2025 3 2, i_ms = 0\<rparr>"
    by (simp add: date_defs Let_def mk_date_def)
  have t1: "setMonth_plus (fixed_zone 0) ex_new_year_noon 2
              = \<lparr>i_date = mk_date 2025 3 1, i_ms = 43200000\<rparr>"
    by (simp add: date_defs fixed_zone_0 Let_def ex_new_year_noon_def mk_date_def)
  have t2: "setMonth_plus (fixed_zone 360) ex_new_years_eve 2
              = \<lparr>i_date = mk_date 2025 2 28, i_ms = 72000000\<rparr>"
    by (simp add: date_defs zone_defs Let_def ex_new_years_eve_def mk_date_def)
  have t3: "setMonth_plus (fixed_zone 0) ex_new_years_eve 2
              = \<lparr>i_date = mk_date 2025 3 3, i_ms = 72000000\<rparr>"
    by (simp add: date_defs fixed_zone_0 Let_def ex_new_years_eve_def mk_date_def)
  have found: "findById r_id (rentals ex_rented) ''r1'' = Some (ex_rental ''r1'' ''t1'' ''p1'' Active)"
    by (simp add: findById_def ex_rec_defs ex_rented_def)
  have pre: "''r1'' \<noteq> []" "r_tenantId (ex_rental ''r1'' ''t1'' ''p1'' Active) = ''t1''"
    "r_status (ex_rental ''r1'' ''t1'' ''p1'' Active) = Active"
    "find (\<lambda>t. t_rentalId t = ''r1'' \<and> t_status t = RequestPending) (terminations ex_rented) = None"
    by (simp_all add: ex_rec_defs ex_rented_def)
  note inst = request_termination_notice
    [where cred = "Token ''t1'' ''tenant''" and rentalId = "''r1''" and reason = "''moving''"
       and newId = "''term1''" and s = ex_rented
       and rental = "ex_rental ''r1'' ''t1'' ''p1'' Active" and userId = "''t1''"]
  from inst [where z = "fixed_zone 0" and now = ex_now and red = "mk_date 2025 2 24"] day
  have "setMonth_plus (fixed_zone 0) ex_now 2 =
          UTC (fixed_zone 0)
            ((LocalTime (fixed_zone 0) ex_now)
               \<lparr>i_date := plus_whole_months (i_date (LocalTime (fixed_zone 0) ex_now)) 2\<rparr>)"
    by blast
  then have t0: "setMonth_plus (fixed_zone 0) ex_now 2
                   = \<lparr>i_date = mk_date 2025 3 10, i_ms = 43200000\<rparr>"
    by (simp add: local(1)) (simp add: ex_now_def plus_whole_months_def mk_date_def fixed_zone_0)
  have early: "instant_lt (new_Date (mk_date 2025 2 24)) (setMonth_plus (fixed_zone 0) ex_now 2)"
    by (simp add: t0) (simp add: date_defs Let_def mk_date_def)
  have late: "\<not> instant_lt (new_Date (mk_date 2025 3 16)) (setMonth_plus (fixed_zone 0) ex_now 2)"
    by (simp add: t0) (simp add: date_defs Let_def mk_date_def)
  have l1: "\<not> instant_lt (new_Date (mk_date 2025 2 30))
               (setMonth_plus (fixed_zone 0) ex_new_year_noon 2)"
    by (simp add: t1 feb30) (simp add: instant_lt_def date_lt_def mk_date_def)
  have l2: "\<not> instant_lt (new_Date (mk_date 2025 3 1))
               (setMonth_plus (fixed_zone 360) ex_new_years_eve 2)"
    by (simp add: t2) (simp add: date_defs Let_def mk_date_def)
  have e3: "instant_lt (new_Date (mk_date 2025 3 1))
               (setMonth_plus (fixed_zone 0) ex_new_years_eve 2)"
    by (simp add: t3) (simp add: date_defs Let_def mk_date_def)
  from inst [where z = "fixed_zone 0" and now = ex_now and red = "mk_date 2025 2 24"]
    p(1) early found pre
  have a: "request_termination (fixed_zone 0) (Token ''t1'' ''tenant'') ''r1''
             (Some (mk_date 2025 2 24)) ''moving'' ''term1'' ex_now ex_rented = Inl NoticeTooShort"
    and b: "run (request_termination (fixed_zone 0) (Token ''t1'' ''tenant'') ''r1''
                   (Some (mk_date 2025 2 24)) ''moving'' ''term1'' ex_now) ex_rented = ex_rented"
    by blast+
  have ok: "request_termination (fixed_zone 0) (Token ''t1'' ''tenant'') ''r1''
              (Some (mk_date 2025 3 16)) ''moving'' ''term1'' ex_now ex_rented
            = Inr (ex_after_termination Terminating RequestPending)"
    using late
    by (simp add: request_termination_def findById_def Let_def ex_rec_defs ex_rented_def
          ex_termination_def ex_after_termination_def)
  from inst [where z = "fixed_zone 0" and now = ex_now and red = "mk_date 2025 3 16"
               and s' = "ex_after_termination Terminating RequestPending"] ok
  obtain rental t where
    c: "findById r_id (rentals ex_rented) ''r1'' = Some rental"
       "terminations (ex_after_termination Terminating RequestPending) = terminations ex_rented @ [t]"
       "t_status t = RequestPending"
       "findById r_id (rentals (ex_after_termination Terminating RequestPending)) ''r1''
           = Some (rental\<lparr>r_status := Terminating, r_endDate := Some (mk_date 2025 3 16)\<rparr>)"
    by blast
  from c(1) found have r: "rental = ex_rental ''r1'' ''t1'' ''p1'' Active" by simp
  have e: "terminations ex_rented = []" by (simp add: ex_rec_defs ex_rented_def)
  from inst [where z = "fixed_zone 0" and now = ex_new_year_noon and red = "mk_date 2025 2 30"]
    l1 found pre
  have f: "\<not> isl (request_termination (fixed_zone 0) (Token ''t1'' ''tenant'') ''r1''
            (Some (mk_date 2025 2 30)) ''moving'' ''term1'' ex_new_year_noon ex_rented)"
    by blast
  from inst [where z = "fixed_zone 360" and now = ex_new_years_eve and red = "mk_date 2025 3 1"]
    l2 found pre
  have g: "\<not> isl (request_termination (fixed_zone 360) (Token ''t1'' ''tenant'') ''r1''
            (Some (mk_date 2025 3 1)) ''moving'' ''term1'' ex_new_years_eve ex_rented)"
    by blast
  from inst [where z = "fixed_zone 0" and now = ex_new_years_eve and red = "mk_date 2025 3 1"]
    p(4) e3 found pre
  have h: "request_termination (fixed_zone 0) (Token ''t1'' ''tenant'') ''r1''
             (Some (mk_date 2025 3 1)) ''moving'' ''term1'' ex_new_years_eve ex_rented
           = Inl NoticeTooShort"
    by blast
  have fin: "findById r_id (rentals (ex_after_termination Terminating RequestPending)) ''r1''
     = Some ((ex_rental ''r1'' ''t1'' ''p1'' Active)
               \<lparr>r_status := Terminating, r_endDate := Some (mk_date 2025 3 16)\<rparr>)"
    using c(4) r by simp
  have sts: "map t_status (terminations (ex_after_termination Terminating RequestPending))
     = [RequestPending]"
    using c(2,3) e by simp
  from p(1) early t0 a b ok fin sts feb30 f t2 g t3 h show ?thesis
    by (intro conjI)
qed

lemma decide_termination_Inr_cases:
  assumes "decide_termination cred terminationId (Some appr) now s = Inr s'"
  obtains userId trm rental property where
    "cred = Token userId ''landlord''"
    "terminationId \<noteq> []"
    "findById t_id (terminations s) terminationId = Some trm"
    "findById r_id (rentals s) (t_rentalId trm) = Some rental"
    "findById p_id (properties s) (r_propertyId rental) = Some property"
    "p_ownerId property = userId"
    "t_status trm = RequestPending"
    "s' = s\<lparr>terminations :=
               update_first (\<lambda>t. t_id t = terminationId)
                 (\<lambda>t. t\<lparr>t_status := (if appr then Approved else Rejected), t_updatedAt := now\<rparr>)
                 (if t_landlordId trm = [] \<or>
                     t_landlordId trm \<noteq> p_ownerId property
                  then update_first (\<lambda>t. t_id t = terminationId)
                         (\<lambda>t. t\<lparr>t_landlordId := p_ownerId property\<rparr>) (terminations s)
                  else terminations s),
             rentals :=
               (if appr then
                  update_first (\<lambda>r. r_id r = t_rentalId trm)
                    (\<lambda>r. r\<lparr>r_status := Completed,
                            r_endDate := Some (t_requestedEndDate trm)\<rparr>) (rentals s)
                else
                  update_first (\<lambda>r. r_id r = t_rentalId trm)
                    (\<lambda>r. r\<lparr>r_status := Active\<rparr>) (rentals s)),
             properties := properties s\<rparr>"
  using assms unfolding decide_termination_def
  by (auto simp: Let_def split: credential.splits if_splits option.splits)

text \<open>
  C5. A successful decision is on a pending Termination, and these are all its effects. The
  Termination (the first record with that id) becomes approved or rejected, with its
  landlordId set to the Property's owner and its update time set. The parent Rental (the
  first record with that id) becomes completed with endDate equal to the Termination's
  requested end date on approve, and active with its endDate as it stood on reject. No
  other Termination or Rental changes, and the Properties (so also the available flag),
  Payments, Renewals and Users are as before.
\<close>

theorem decide_termination_effects:
  "decide_termination cred terminationId (Some appr) now s = Inr s' \<longrightarrow>
     (\<exists>t rental property tpre tpost rpre rpost.
        findById t_id (terminations s) terminationId = Some t \<and> t_status t = RequestPending \<and>
        findById r_id (rentals s) (t_rentalId t) = Some rental \<and>
        findById p_id (properties s) (r_propertyId rental) = Some property \<and>
        terminations s = tpre @ t # tpost \<and> findById t_id tpre terminationId = None \<and>
        terminations s' =
          tpre @ t\<lparr>t_landlordId := p_ownerId property,
                    t_status := (if appr then Approved else Rejected),
                    t_updatedAt := now\<rparr> # tpost \<and>
        rentals s = rpre @ rental # rpost \<and> findById r_id rpre (t_rentalId t) = None \<and>
        rentals s' =
          rpre @ (if appr
                  then rental\<lparr>r_status := Completed, r_endDate := Some (t_requestedEndDate t)\<rparr>
                  else rental\<lparr>r_status := Active\<rparr>) # rpost \<and>
        properties s' = properties s \<and> payments s' = payments s \<and>
        renewals s' = renewals s \<and> users s' = users s)"
proof
  assume ok: "decide_termination cred terminationId (Some appr) now s = Inr s'"
  then obtain userId t rental property where
    h: "findById t_id (terminations s) terminationId = Some t"
       "findById r_id (rentals s) (t_rentalId t) = Some rental"
       "findById p_id (properties s) (r_propertyId rental) = Some property"
       "t_status t = RequestPending"
       "s' = s\<lparr>terminations :=
               update_first (\<lambda>t. t_id t = terminationId)
                 (\<lambda>t. t\<lparr>t_status := (if appr then Approved else Rejected), t_updatedAt := now\<rparr>)
                 (if t_landlordId t = [] \<or> t_landlordId t \<noteq> p_ownerId property
                  then update_first (\<lambda>t. t_id t = terminationId)
                         (\<lambda>t. t\<lparr>t_landlordId := p_ownerId property\<rparr>) (terminations s)
                  else terminations s),
             rentals :=
               (if appr then
                  update_first (\<lambda>r. r_id r = t_rentalId t)
                    (\<lambda>r. r\<lparr>r_status := Completed,
                            r_endDate := Some (t_requestedEndDate t)\<rparr>) (rentals s)
                else
                  update_first (\<lambda>r. r_id r = t_rentalId t)
                    (\<lambda>r. r\<lparr>r_status := Active\<rparr>) (rentals s)),
             properties := properties s\<rparr>"
    by (rule decide_termination_Inr_cases)
  from update_first_split [OF h(1)] obtain tpre tpost where
    ts: "terminations s = tpre @ t # tpost" "findById t_id tpre terminationId = None"
        "\<forall>f. update_first (\<lambda>y. t_id y = terminationId) f (terminations s) = tpre @ f t # tpost"
    by blast
  from update_first_split [OF h(2)] obtain rpre rpost where
    rs: "rentals s = rpre @ rental # rpost" "findById r_id rpre (t_rentalId t) = None"
        "\<forall>f. update_first (\<lambda>y. r_id y = t_rentalId t) f (rentals s) = rpre @ f rental # rpost"
    by blast
  have tid: "t_id t = terminationId" using h(1) by (rule findById_Some_id)
  let ?g = "\<lambda>t. t\<lparr>t_status := (if appr then Approved else Rejected), t_updatedAt := now\<rparr>"
  define healed where
    "healed = (if t_landlordId t = [] \<or> t_landlordId t \<noteq> p_ownerId property
               then update_first (\<lambda>t. t_id t = terminationId)
                      (\<lambda>t. t\<lparr>t_landlordId := p_ownerId property\<rparr>) (terminations s)
               else terminations s)"
  have dec: "terminations s' = update_first (\<lambda>t. t_id t = terminationId) ?g healed"
    by (simp add: h(5) healed_def)
  have t': "terminations s' =
          tpre @ t\<lparr>t_landlordId := p_ownerId property,
                    t_status := (if appr then Approved else Rejected),
                    t_updatedAt := now\<rparr> # tpost"
  proof (cases "t_landlordId t = [] \<or> t_landlordId t \<noteq> p_ownerId property")
    case True
    have "healed = update_first (\<lambda>t. t_id t = terminationId)
                  (\<lambda>t. t\<lparr>t_landlordId := p_ownerId property\<rparr>) (terminations s)"
      unfolding healed_def using True by (rule if_P)
    with dec have "terminations s' = update_first (\<lambda>t. t_id t = terminationId) ?g
          (update_first (\<lambda>t. t_id t = terminationId)
                  (\<lambda>t. t\<lparr>t_landlordId := p_ownerId property\<rparr>) (terminations s))"
      by simp
    also have "\<dots> = update_first (\<lambda>t. t_id t = terminationId) ?g
          (tpre @ t\<lparr>t_landlordId := p_ownerId property\<rparr> # tpost)"
      using ts(3) by simp
    also have "\<dots> = tpre @ ?g (t\<lparr>t_landlordId := p_ownerId property\<rparr>) # tpost"
      using ts(2) tid by (intro update_first_at) simp_all
    finally show ?thesis by simp
  next
    case False
    then have same: "t\<lparr>t_landlordId := p_ownerId property\<rparr> = t" by simp
    have "healed = terminations s"
      unfolding healed_def using False by (rule if_not_P)
    with dec have "terminations s' = update_first (\<lambda>t. t_id t = terminationId) ?g (terminations s)"
      by simp
    also have "\<dots> = tpre @ ?g t # tpost" using ts(3) by simp
    also have "?g t = ?g (t\<lparr>t_landlordId := p_ownerId property\<rparr>)" by (simp only: same)
    finally show ?thesis by simp
  qed
  have r': "rentals s' =
          rpre @ (if appr
                  then rental\<lparr>r_status := Completed, r_endDate := Some (t_requestedEndDate t)\<rparr>
                  else rental\<lparr>r_status := Active\<rparr>) # rpost"
    using rs(3) by (simp add: h(5))
  have rest: "properties s' = properties s \<and> payments s' = payments s \<and>
        renewals s' = renewals s \<and> users s' = users s"
    by (simp add: h(5))
  from h(1,2,3,4) ts(1,2) t' rs(1,2) r' rest
  show "\<exists>t rental property tpre tpost rpre rpost.
        findById t_id (terminations s) terminationId = Some t \<and> t_status t = RequestPending \<and>
        findById r_id (rentals s) (t_rentalId t) = Some rental \<and>
        findById p_id (properties s) (r_propertyId rental) = Some property \<and>
        terminations s = tpre @ t # tpost \<and> findById t_id tpre terminationId = None \<and>
        terminations s' =
          tpre @ t\<lparr>t_landlordId := p_ownerId property,
                    t_status := (if appr then Approved else Rejected),
                    t_updatedAt := now\<rparr> # tpost \<and>
        rentals s = rpre @ rental # rpost \<and> findById r_id rpre (t_rentalId t) = None \<and>
        rentals s' =
          rpre @ (if appr
                  then rental\<lparr>r_status := Completed, r_endDate := Some (t_requestedEndDate t)\<rparr>
                  else rental\<lparr>r_status := Active\<rparr>) # rpost \<and>
        properties s' = properties s \<and> payments s' = payments s \<and>
        renewals s' = renewals s \<and> users s' = users s"
    by blast
qed

text \<open>
  On the spec's scenario C: rental \<open>r1\<close> ran until 2025-05-01 before the tenant asked to
  end it on 2025-03-16. Approving the request completes the Rental with endDate 2025-03-16
  and leaves \<open>p1\<close> flagged unavailable; rejecting it makes the Rental active again with
  endDate still 2025-03-16.
\<close>

theorem decide_termination_effects_witness:
  "decide_termination (Token ''l1'' ''landlord'') ''term1'' (Some True) ex_now
       (ex_after_termination Terminating RequestPending)
     = Inr (ex_after_termination Completed Approved) \<and>
   decide_termination (Token ''l1'' ''landlord'') ''term1'' (Some False) ex_now
       (ex_after_termination Terminating RequestPending)
     = Inr (ex_after_termination Active Rejected) \<and>
   properties (ex_after_termination Completed Approved) = [ex_property ''p1'' False] \<and>
   map r_status (rentals (ex_after_termination Completed Approved)) = [Completed] \<and>
   map r_endDate (rentals (ex_after_termination Completed Approved)) = [Some (mk_date 2025 3 16)] \<and>
   map t_status (terminations (ex_after_termination Completed Approved)) = [Approved] \<and>
   map r_status (rentals (ex_after_termination Active Rejected)) = [Active] \<and>
   map r_endDate (rentals (ex_after_termination Active Rejected)) = [Some (mk_date 2025 3 16)] \<and>
   map t_status (terminations (ex_after_termination Active Rejected)) = [Rejected]"
proof -
  have ok1: "decide_termination (Token ''l1'' ''landlord'') ''term1'' (Some True) ex_now
       (ex_after_termination Terminating RequestPending)
     = Inr (ex_after_termination Completed Approved)"
    by (simp add: decide_termination_def findById_def Let_def ex_defs ex_termination_def
          ex_after_termination_def)
  have ok2: "decide_termination (Token ''l1'' ''landlord'') ''term1'' (Some False) ex_now
       (ex_after_termination Terminating RequestPending)
     = Inr (ex_after_termination Active Rejected)"
    by (simp add: decide_termination_def findById_def Let_def ex_defs ex_termination_def
          ex_after_termination_def)
  have before: "properties (ex_after_termination Terminating RequestPending)
                  = [ex_property ''p1'' False]"
    by (simp add: ex_defs ex_termination_def ex_after_termination_def)
  from decide_termination_effects
    [where cred = "Token ''l1'' ''landlord''" and terminationId = "''term1''" and appr = True
       and now = ex_now and s = "ex_after_termination Terminating RequestPending"
       and s' = "ex_after_termination Completed Approved"] ok1
  have "properties (ex_after_termination Completed Approved)
          = properties (ex_after_termination Terminating RequestPending)"
    by blast
  with before have p: "properties (ex_after_termination Completed Approved)
          = [ex_property ''p1'' False]"
    by simp
  have rest:
    "map r_status (rentals (ex_after_termination Completed Approved)) = [Completed]"
    "map r_endDate (rentals (ex_after_termination Completed Approved)) = [Some (mk_date 2025 3 16)]"
    "map t_status (terminations (ex_after_termination Completed Approved)) = [Approved]"
    "map r_status (rentals (ex_after_termination Active Rejected)) = [Active]"
    "map r_endDate (rentals (ex_after_termination Active Rejected)) = [Some (mk_date 2025 3 16)]"
    "map t_status (terminations (ex_after_termination Active Rejected)) = [Rejected]"
    by (simp_all add: ex_defs ex_termination_def ex_after_termination_def)
  from ok1 ok2 p rest show ?thesis by simp
qed

subsection \<open>Renewals\<close>



subsection \<open>Payments\<close>

lemma create_payment_Inr_cases:
  assumes "create_payment cred rentalId month amount payMethod newId now s = Inr s'"
  obtains userId a rental where
    "cred = Token userId ''tenant''"
    "amount = Some a"
    "rentalId \<noteq> []"
    "monthRegex_test month"
    "0 < a"
    "findById r_id (rentals s) rentalId = Some rental"
    "r_tenantId rental = userId"
    "r_status rental = Active"
    "find (\<lambda>p. pay_rentalId p = rentalId \<and> pay_month p = month) (payments s) = None"
    "a = r_monthlyRent rental"
    "s' = s\<lparr>payments := payments s @
              [\<lparr>pay_id = newId, pay_rentalId = rentalId, pay_amount = a, pay_month = month,
                pay_status = Paid, pay_timestamp = now,
                pay_method = (if payMethod = [] then ''online_payment'' else payMethod)\<rparr>]\<rparr>"
  using assms unfolding create_payment_def
  by (auto simp: Let_def split: credential.splits if_splits option.splits)

lemma payments_unique_snoc:
  "payments_unique (ps @ [p]) =
     (payments_unique ps \<and>
      find (\<lambda>q. pay_rentalId q = pay_rentalId p \<and> pay_month q = pay_month p) ps = None)"
  by (auto simp: payments_unique_def payment_key_def find_None_iff image_iff)

lemma create_payment_keeps_unique:
  "payments_unique (payments s) \<Longrightarrow>
     payments_unique (payments (run (create_payment cred rentalId month amount payMethod newId now) s))"
proof (cases "create_payment cred rentalId month amount payMethod newId now s")
  case (Inl e)
  assume "payments_unique (payments s)"
  with Inl show ?thesis by (simp add: run_def)
next
  case (Inr s')
  assume u: "payments_unique (payments s)"
  from Inr obtain a where
    h: "find (\<lambda>p. pay_rentalId p = rentalId \<and> pay_month p = month) (payments s) = None"
       "s' = s\<lparr>payments := payments s @
              [\<lparr>pay_id = newId, pay_rentalId = rentalId, pay_amount = a, pay_month = month,
                pay_status = Paid, pay_timestamp = now,
                pay_method = (if payMethod = [] then ''online_payment'' else payMethod)\<rparr>]\<rparr>"
    by (rule create_payment_Inr_cases)
  from u h(1) have "payments_unique (payments s')"
    by (simp add: h(2) payments_unique_snoc)
  with Inr show ?thesis by (simp add: run_def)
qed

lemma request_rental_payments:
  "payments (run (request_rental z cred propertyId rentalDuration newId now) s) = payments s"
  unfolding run_def request_rental_def
  by (auto simp: Let_def split: credential.splits option.splits sum.splits)

lemma approve_rental_payments:
  "payments (run (approve_rental z cred rentalId action) s) = payments s"
  unfolding run_def approve_rental_def
  by (auto simp: Let_def split: credential.splits option.splits sum.splits)

lemma request_termination_payments:
  "payments (run (request_termination z cred rentalId red reason newId now) s) = payments s"
  unfolding run_def request_termination_def
  by (auto simp: Let_def split: credential.splits option.splits sum.splits)

lemma decide_termination_payments:
  "payments (run (decide_termination cred terminationId approve now) s) = payments s"
proof (cases "decide_termination cred terminationId approve now s")
  case (Inl e)
  then show ?thesis by (simp add: run_def)
next
  case (Inr s')
  then obtain appr where "approve = Some appr"
    unfolding decide_termination_def
    by (cases approve) (auto split: credential.splits if_splits)
  with Inr have ok: "decide_termination cred terminationId (Some appr) now s = Inr s'"
    by simp
  from ok have "payments s' = payments s"
    by (rule decide_termination_Inr_cases) simp
  with Inr show ?thesis by (simp add: run_def)
qed

lemma request_renewal_payments:
  "payments (run (request_renewal z cred rentalId renewalDuration newId now) s) = payments s"
  unfolding run_def request_renewal_def
  by (auto simp: Let_def split: credential.splits option.splits sum.splits)

lemma handle_keeps_unique:
  "payments_unique (payments s) \<Longrightarrow> payments_unique (payments (run (handle z rq now) s))"
proof (cases rq)
  case (CreatePayment c rid month amount payMethod newId)
  assume "payments_unique (payments s)"
  then show ?thesis
    unfolding CreatePayment handle.simps by (rule create_payment_keeps_unique)
qed (simp_all add: request_rental_payments approve_rental_payments request_termination_payments
       decide_termination_payments request_renewal_payments)

lemma serve_keeps_unique:
  "payments_unique (payments s) \<Longrightarrow> payments_unique (payments (serve z rqs s))"
proof (induction rqs arbitrary: s)
  case Nil
  then show ?case by simp
next
  case (Cons a rqs)
  obtain rq now where a: "a = (rq, now)" by (cases a)
  from Cons.prems have "payments_unique (payments (run (handle z rq now) s))"
    by (rule handle_keeps_unique)
  then have "payments_unique (payments (serve z rqs (run (handle z rq now) s)))"
    by (rule Cons.IH)
  then show ?case by (simp add: a)
qed

lemma unique_key_at_most_one:
  "distinct (map f xs) \<Longrightarrow> length (filter (\<lambda>x. f x = k) xs) \<le> 1"
proof (induction xs)
  case Nil
  then show ?case by simp
next
  case (Cons x xs)
  show ?case
  proof (cases "f x = k")
    case True
    with Cons.prems have "k \<notin> f ` set xs" by auto
    then have "filter (\<lambda>x. f x = k) xs = []" by (auto simp: filter_empty_conv)
    with True show ?thesis by simp
  next
    case False
    with Cons show ?thesis by simp
  qed
qed

text \<open>
  C8. Create Payment rejects a request for a (rentalId, month) pair that already has a
  Payment, and changes nothing; for the tenant of the active Rental with well-formed input
  the rejection is ``Payment for this month already exists''. An accepted request appends
  exactly one Payment, for that rental and month, and the pair had no Payment before. So if
  no two Payments share rental and month, none do after a Create Payment, nor after any
  sequence of the modelled requests (only Create Payment writes the payments); then for
  every rental \<open>R\<close> and month \<open>m\<close> at most one Payment with that pair exists.
\<close>

theorem create_payment_unique:
  "(find (\<lambda>p. pay_rentalId p = rentalId \<and> pay_month p = month) (payments s) \<noteq> None \<longrightarrow>
      isl (create_payment cred rentalId month amount payMethod newId now s) \<and>
      run (create_payment cred rentalId month amount payMethod newId now) s = s) \<and>
   (find (\<lambda>p. pay_rentalId p = rentalId \<and> pay_month p = month) (payments s) \<noteq> None \<and>
    rentalId \<noteq> [] \<and> monthRegex_test month \<and> 0 < a \<and>
    findById r_id (rentals s) rentalId = Some rental \<and> r_tenantId rental = userId \<and>
    r_status rental = Active \<longrightarrow>
      create_payment (Token userId ''tenant'') rentalId month (Some a) payMethod newId now s
        = Inl PaymentAlreadyExists) \<and>
   (create_payment cred rentalId month amount payMethod newId now s = Inr s' \<longrightarrow>
      find (\<lambda>p. pay_rentalId p = rentalId \<and> pay_month p = month) (payments s) = None \<and>
      (\<exists>p. payments s' = payments s @ [p] \<and> pay_rentalId p = rentalId \<and> pay_month p = month \<and>
           pay_id p = newId \<and> pay_status p = Paid) \<and>
      rentals s' = rentals s \<and> properties s' = properties s \<and>
      terminations s' = terminations s \<and> renewals s' = renewals s \<and> users s' = users s) \<and>
   (payments_unique (payments s) \<longrightarrow>
      payments_unique
        (payments (run (create_payment cred rentalId month amount payMethod newId now) s)) \<and>
      payments_unique (payments (serve z rqs s)) \<and>
      length (filter (\<lambda>p. pay_rentalId p = R \<and> pay_month p = m) (payments (serve z rqs s))) \<le> 1)"
proof (intro conjI impI)
  assume ex: "find (\<lambda>p. pay_rentalId p = rentalId \<and> pay_month p = month) (payments s) \<noteq> None"
  show 1: "isl (create_payment cred rentalId month amount payMethod newId now s)"
  proof (cases "create_payment cred rentalId month amount payMethod newId now s")
    case (Inl e)
    then show ?thesis by simp
  next
    case (Inr s')
    then have "find (\<lambda>p. pay_rentalId p = rentalId \<and> pay_month p = month) (payments s) = None"
      by (rule create_payment_Inr_cases)
    with ex show ?thesis by simp
  qed
  then show "run (create_payment cred rentalId month amount payMethod newId now) s = s"
    by (auto simp: run_def isl_def)
next
  assume "find (\<lambda>p. pay_rentalId p = rentalId \<and> pay_month p = month) (payments s) \<noteq> None \<and>
    rentalId \<noteq> [] \<and> monthRegex_test month \<and> 0 < a \<and>
    findById r_id (rentals s) rentalId = Some rental \<and> r_tenantId rental = userId \<and>
    r_status rental = Active"
  then show "create_payment (Token userId ''tenant'') rentalId month (Some a) payMethod newId now s
        = Inl PaymentAlreadyExists"
    by (auto simp: create_payment_def monthRegex_test_def)
next
  assume ok: "create_payment cred rentalId month amount payMethod newId now s = Inr s'"
  then obtain a where
    h: "find (\<lambda>p. pay_rentalId p = rentalId \<and> pay_month p = month) (payments s) = None"
       "s' = s\<lparr>payments := payments s @
              [\<lparr>pay_id = newId, pay_rentalId = rentalId, pay_amount = a, pay_month = month,
                pay_status = Paid, pay_timestamp = now,
                pay_method = (if payMethod = [] then ''online_payment'' else payMethod)\<rparr>]\<rparr>"
    by (rule create_payment_Inr_cases)
  from h(1) show "find (\<lambda>p. pay_rentalId p = rentalId \<and> pay_month p = month) (payments s) = None" .
  show "\<exists>p. payments s' = payments s @ [p] \<and> pay_rentalId p = rentalId \<and> pay_month p = month \<and>
           pay_id p = newId \<and> pay_status p = Paid"
    by (simp add: h(2))
  show "rentals s' = rentals s" "properties s' = properties s"
       "terminations s' = terminations s" "renewals s' = renewals s" "users s' = users s"
    by (simp_all add: h(2))
next
  assume u: "payments_unique (payments s)"
  then show "payments_unique
        (payments (run (create_payment cred rentalId month amount payMethod newId now) s))"
    by (rule create_payment_keeps_unique)
  from u show u': "payments_unique (payments (serve z rqs s))"
    by (rule serve_keeps_unique)
  have "length (filter (\<lambda>p. payment_key p = (R, m)) (payments (serve z rqs s))) \<le> 1"
    using u' unfolding payments_unique_def by (rule unique_key_at_most_one)
  then show "length (filter (\<lambda>p. pay_rentalId p = R \<and> pay_month p = m) (payments (serve z rqs s))) \<le> 1"
    by (simp add: payment_key_def)
qed

text \<open>
  On the example store: tenant \<open>t1\<close> pays January 2025 for \<open>r1\<close>; paying the same month
  again is rejected, also across the two requests served in a row.
\<close>

theorem create_payment_unique_witness:
  "create_payment (Token ''t1'' ''tenant'') ''r1'' ''2025-01'' (Some 15000) [] ''pay1'' ex_now ex_rented
     = Inr (ex_store [ex_property ''p1'' False] [ex_rental ''r1'' ''t1'' ''p1'' Active]
              [ex_payment ''pay1'' ''r1'' ''2025-01'']) \<and>
   create_payment (Token ''t1'' ''tenant'') ''r1'' ''2025-01'' (Some 15000) [] ''pay2'' ex_now
       (ex_store [ex_property ''p1'' False] [ex_rental ''r1'' ''t1'' ''p1'' Active]
              [ex_payment ''pay1'' ''r1'' ''2025-01''])
     = Inl PaymentAlreadyExists \<and>
   payments_unique (payments ex_rented) \<and>
   length (filter (\<lambda>p. pay_rentalId p = ''r1'' \<and> pay_month p = ''2025-01'')
     (payments (serve (fixed_zone 0)
        [(CreatePayment (Token ''t1'' ''tenant'') ''r1'' ''2025-01'' (Some 15000) [] ''pay1'', ex_now),
         (CreatePayment (Token ''t1'' ''tenant'') ''r1'' ''2025-01'' (Some 15000) [] ''pay2'', ex_now)]
        ex_rented))) \<le> 1"
proof -
  let ?paid = "ex_store [ex_property ''p1'' False] [ex_rental ''r1'' ''t1'' ''p1'' Active]
              [ex_payment ''pay1'' ''r1'' ''2025-01'']"
  have ok: "create_payment (Token ''t1'' ''tenant'') ''r1'' ''2025-01'' (Some 15000) [] ''pay1'' ex_now
              ex_rented = Inr ?paid"
    by (simp add: create_payment_def monthRegex_test_def is_digit_def findById_def Let_def
          ex_defs ex_rented_def)
  have pre: "find (\<lambda>p. pay_rentalId p = ''r1'' \<and> pay_month p = ''2025-01'') (payments ?paid) \<noteq> None"
    "''r1'' \<noteq> []" "monthRegex_test ''2025-01''" "(0::int) < 15000"
    "findById r_id (rentals ?paid) ''r1'' = Some (ex_rental ''r1'' ''t1'' ''p1'' Active)"
    "r_tenantId (ex_rental ''r1'' ''t1'' ''p1'' Active) = ''t1''"
    "r_status (ex_rental ''r1'' ''t1'' ''p1'' Active) = Active"
    by (simp_all add: monthRegex_test_def is_digit_def findById_def ex_defs ex_rented_def)
  have u: "payments_unique (payments ex_rented)"
    by (simp add: payments_unique_def ex_defs ex_rented_def)
  from create_payment_unique
    [where s = ?paid and rentalId = "''r1''" and month = "''2025-01''" and a = 15000
       and rental = "ex_rental ''r1'' ''t1'' ''p1'' Active" and userId = "''t1''"
       and payMethod = "[]" and newId = "''pay2''" and now = ex_now] pre
  have dup: "create_payment (Token ''t1'' ''tenant'') ''r1'' ''2025-01'' (Some 15000) [] ''pay2'' ex_now
               ?paid = Inl PaymentAlreadyExists"
    by blast
  from create_payment_unique
    [where z = "fixed_zone 0" and s = ex_rented and R = "''r1''" and m = "''2025-01''"
       and rqs = "[(CreatePayment (Token ''t1'' ''tenant'') ''r1'' ''2025-01'' (Some 15000) [] ''pay1'', ex_now),
         (CreatePayment (Token ''t1'' ''tenant'') ''r1'' ''2025-01'' (Some 15000) [] ''pay2'', ex_now)]"] u
  have one: "length (filter (\<lambda>p. pay_rentalId p = ''r1'' \<and> pay_month p = ''2025-01'')
     (payments (serve (fixed_zone 0)
        [(CreatePayment (Token ''t1'' ''tenant'') ''r1'' ''2025-01'' (Some 15000) [] ''pay1'', ex_now),
         (CreatePayment (Token ''t1'' ''tenant'') ''r1'' ''2025-01'' (Some 15000) [] ''pay2'', ex_now)]
        ex_rented))) \<le> 1"
    by blast
  from ok dup u one show ?thesis by simp
qed

subsection \<open>Double-precision rounding\<close>

lemma floor_rat_numeral: "\<lfloor>numeral a / numeral b :: rat\<rfloor> = numeral a div numeral b"
  using floor_divide_of_int_eq [of "numeral a" "numeral b", where ?'a = rat] by simp

lemma ilog2_numeral:
  "ilog2 (numeral k) x =
     (if 2 \<le> x then ilog2 (pred_numeral k) (x / 2) + 1
      else if x < 1 then ilog2 (pred_numeral k) (x * 2) - 1
      else 0)"
  by (simp add: numeral_eq_Suc)

lemmas fl_defs = fl_def ilog2_numeral pow2_def round_half_even_def Let_def floor_rat_numeral

lemma pow2_powi: "pow2 e = 2 powi e"
  by (simp add: pow2_def power_int_def field_simps)

lemma pow2_pos: "0 < pow2 e"
  by (simp add: pow2_powi)

lemma pow2_plus1: "pow2 (e + 1) = 2 * pow2 e"
  by (simp add: pow2_powi power_int_add)

lemma pow2_minus1: "pow2 (e - 1) = pow2 e / 2"
  by (simp add: pow2_powi power_int_diff)

text \<open>\<open>ilog2\<close> finds the binade of \<open>x\<close> when its fuel reaches it.\<close>

lemma ilog2_bounds:
  "1 / 2 ^ n \<le> x \<Longrightarrow> x < 2 * 2 ^ n \<Longrightarrow> pow2 (ilog2 n x) \<le> x \<and> x < 2 * pow2 (ilog2 n x)"
proof (induction n arbitrary: x)
  case 0
  then show ?case by (simp add: pow2_def)
next
  case (Suc n)
  have p: "(0::rat) < 2 ^ n" by simp
  show ?case
  proof (cases "2 \<le> x")
    case True
    have "1 / 2 ^ n \<le> (1::rat)" using p by (simp add: field_simps)
    moreover from True have "1 \<le> x / 2" by simp
    ultimately have lo: "1 / 2 ^ n \<le> x / 2" by (rule order_trans)
    from Suc.prems(2) have hi: "x / 2 < 2 * 2 ^ n" by simp
    from Suc.IH [OF lo hi] True show ?thesis by (simp add: pow2_plus1)
  next
    case False
    show ?thesis
    proof (cases "x < 1")
      case True
      from Suc.prems(1) have lo: "1 / 2 ^ n \<le> x * 2" by (simp add: field_simps)
      have "(1::rat) \<le> 2 ^ n" by simp
      with True have hi: "x * 2 < 2 * 2 ^ n" by linarith
      from Suc.IH [OF lo hi] True \<open>\<not> 2 \<le> x\<close> show ?thesis by (simp add: pow2_minus1)
    next
      case False
      with \<open>\<not> 2 \<le> x\<close> show ?thesis by (simp add: pow2_def)
    qed
  qed
qed

lemma round_half_even_error: "\<bar>of_int (round_half_even q) - q\<bar> \<le> 1 / 2"
proof -
  have "of_int \<lfloor>q\<rfloor> \<le> q" "q < of_int \<lfloor>q\<rfloor> + 1" by linarith+
  then show ?thesis
    by (auto simp: round_half_even_def Let_def abs_le_iff)
qed

text \<open>
  Rounding to a double moves a positive number by at most half a unit in the last place,
  so by at most the \<open>2 ^ 53\<close>-th part of it.
\<close>

lemma fl_error:
  assumes lo: "1 / 2 ^ 1100 \<le> x" and hi: "x < 2 * 2 ^ 1100"
  shows "\<bar>fl x - x\<bar> \<le> x / 2 ^ 53"
proof -
  have pos: "0 < x" using lo by (rule less_le_trans [rotated]) simp
  define e where "e = ilog2 1100 x"
  define u where "u = pow2 (e - 52)"
  have b: "pow2 e \<le> x" using ilog2_bounds [OF lo hi] by (simp add: e_def)
  have upos: "0 < u" by (simp add: u_def pow2_pos)
  have u: "u = pow2 e / 2 ^ 52" by (simp add: u_def pow2_powi power_int_diff)
  have flx: "fl x = of_int (round_half_even (x / u)) * u"
    using pos by (simp add: fl_def Let_def e_def u_def)
  have "fl x - x = (of_int (round_half_even (x / u)) - x / u) * u"
    using upos by (simp add: flx left_diff_distrib)
  then have "\<bar>fl x - x\<bar> = \<bar>of_int (round_half_even (x / u)) - x / u\<bar> * u"
    using upos by (simp add: abs_mult)
  also have "\<dots> \<le> (1 / 2) * u"
    using round_half_even_error [of "x / u"] upos by (intro mult_right_mono) simp_all
  also have "\<dots> = pow2 e / 2 ^ 53" by (simp add: u)
  also have "\<dots> \<le> x / 2 ^ 53" using b by (simp add: divide_right_mono)
  finally show ?thesis .
qed

lemma fl_error_small:
  assumes lo: "1 / 2 ^ 40 \<le> x" and hi: "x \<le> 2 ^ 40"
  shows "\<bar>fl x - x\<bar> \<le> x / 2 ^ 53"
proof -
  have "(1::rat) / 2 ^ 1100 \<le> 1 / 2 ^ 40"
    by (intro divide_left_mono power_increasing) simp_all
  from this lo have lo': "1 / 2 ^ 1100 \<le> x" by (rule order_trans)
  have "(2::rat) ^ 40 < 2 * 2 ^ 1100"
    using power_increasing [of 40 1100 "2::rat"] by simp
  with hi have hi': "x < 2 * 2 ^ 1100" by (rule le_less_trans)
  from lo' hi' show ?thesis by (rule fl_error)
qed

text \<open>
  \<^verbatim>\<open>(c / a) * 100\<close> in doubles, for two array lengths \<open>c \<le> a\<close>, is the percentage up to the
  rounding of the two operations.
\<close>

lemma double_percentage_error:
  fixes c a :: nat
  assumes ca: "c \<le> a" and a0: "0 < a" and a32: "a < 2 ^ 32"
  shows "\<bar>fl (fl (of_nat c / of_nat a) * 100) - 100 * of_nat c / of_nat a\<bar> \<le> 1 / 2 ^ 45"
    and "c = 0 \<or> 1 / 2 ^ 27 \<le> fl (fl (of_nat c / of_nat a) * 100)"
    and "fl (fl (of_nat c / of_nat a) * 100) \<le> 101"
proof -
  define x :: rat where "x = of_nat c / of_nat a"
  define y where "y = fl x"
  define r where "r = fl (y * 100)"
  have both: "\<bar>r - 100 * x\<bar> \<le> 1 / 2 ^ 45 \<and> (c = 0 \<or> 1 / 2 ^ 27 \<le> r) \<and> r \<le> 101"
  proof (cases "c = 0")
    case True
    then show ?thesis by (simp add: r_def y_def x_def fl_def)
  next
    case False
    have apos: "(0::rat) < of_nat a" using a0 by simp
    have "(of_nat a :: rat) < of_nat ((2::nat) ^ 32)" using a32 by (simp only: of_nat_less_iff)
    then have a32': "(of_nat a :: rat) < 2 ^ 32" by simp
    from False have "(1::rat) \<le> of_nat c" by simp
    then have "1 / of_nat a \<le> x" using apos by (simp add: x_def divide_right_mono)
    moreover have "(1::rat) / 2 ^ 32 \<le> 1 / of_nat a"
      using apos a32' by (simp add: field_simps)
    ultimately have xlo: "1 / 2 ^ 32 \<le> x" by (rule order_trans [rotated])
    have "(of_nat c :: rat) \<le> of_nat a" using ca by simp
    then have xhi: "x \<le> 1" using apos by (simp add: x_def)
    have "\<bar>y - x\<bar> \<le> x / 2 ^ 53"
      unfolding y_def using xlo xhi by (intro fl_error_small) simp_all
    then have e1: "x - x / 2 ^ 53 \<le> y" "y \<le> x + x / 2 ^ 53"
      by (simp_all only: abs_diff_le_iff)
    from e1(1) xlo have ylo: "1 / 2 ^ 33 \<le> y" by simp
    from e1(2) xhi have yhi: "y \<le> 1 + 1 / 2 ^ 53" by simp
    have "\<bar>r - y * 100\<bar> \<le> y * 100 / 2 ^ 53"
      unfolding r_def using ylo yhi by (intro fl_error_small) simp_all
    then have e2: "y * 100 - y * 100 / 2 ^ 53 \<le> r" "r \<le> y * 100 + y * 100 / 2 ^ 53"
      by (simp_all only: abs_diff_le_iff)
    from e1 e2 xhi yhi have "100 * x - 1 / 2 ^ 45 \<le> r \<and> r \<le> 100 * x + 1 / 2 ^ 45"
      by simp
    then have "\<bar>r - 100 * x\<bar> \<le> 1 / 2 ^ 45"
      by (simp only: abs_diff_le_iff)
    moreover from e2(1) ylo have "1 / 2 ^ 27 \<le> r" by simp
    moreover from e2(2) yhi have "r \<le> 101" by simp
    ultimately show ?thesis by simp
  qed
  from both show "\<bar>fl (fl (of_nat c / of_nat a) * 100) - 100 * of_nat c / of_nat a\<bar> \<le> 1 / 2 ^ 45"
    by (simp add: r_def y_def x_def)
  from both show "c = 0 \<or> 1 / 2 ^ 27 \<le> fl (fl (of_nat c / of_nat a) * 100)"
    by (simp add: r_def y_def x_def)
  from both show "fl (fl (of_nat c / of_nat a) * 100) \<le> 101"
    by (simp add: r_def y_def x_def)
qed

text \<open>
  \<^verbatim>\<open>Math.round(r * 100) / 100\<close> in doubles stays within half a hundredth of \<open>r\<close>, up
  to the rounding of the two operations.
\<close>

lemma round2_error:
  assumes lo: "r = 0 \<or> 1 / 2 ^ 27 \<le> r" and hi: "r \<le> 101"
  shows "\<bar>round2 r - r\<bar> \<le> 1 / 200 + 1 / 2 ^ 45"
proof (cases "r = 0")
  case True
  have "\<lfloor>1 / 2 :: rat\<rfloor> = 0" by (simp add: floor_eq_iff)
  with True show ?thesis by (simp add: round2_def fl_def)
next
  case False
  with lo have rlo: "1 / 2 ^ 27 \<le> r" by simp
  define z where "z = fl (r * 100)"
  define n where "n = \<lfloor>z + 1 / 2\<rfloor>"
  have "\<bar>z - r * 100\<bar> \<le> r * 100 / 2 ^ 53"
    unfolding z_def using rlo hi by (intro fl_error_small) simp_all
  then have ez: "r * 100 - r * 100 / 2 ^ 53 \<le> z" "z \<le> r * 100 + r * 100 / 2 ^ 53"
    by (simp_all only: abs_diff_le_iff)
  have en: "of_int n \<le> z + 1 / 2" "z + 1 / 2 < of_int n + 1"
    unfolding n_def by linarith+
  from ez(1) rlo have zpos: "0 < z" by simp
  with en(2) have "(0::rat) < of_int n + 1" by simp
  then have "(0::rat) < of_int (n + 1)" by simp
  then have npos: "0 \<le> n" by (simp only: of_int_0_less_iff)
  have out: "round2 r = fl (of_int n / 100)" by (simp add: round2_def z_def n_def)
  show ?thesis
  proof (cases "n = 0")
    case True
    with out have "round2 r = 0" by (simp add: fl_def)
    moreover from True en(2) ez(1) have "r \<le> 1 / 200 + 1 / 2 ^ 45" by simp
    moreover from rlo have "0 \<le> r" by (rule order_trans [rotated]) simp
    ultimately show ?thesis by simp
  next
    case False
    with npos have "1 \<le> n" by simp
    then have n1: "(1::rat) \<le> of_int n" by simp
    define q :: rat where "q = of_int n / 100"
    from n1 have qlo: "1 / 2 ^ 40 \<le> q" by (simp add: q_def)
    from en(1) ez(2) hi have qhi: "q \<le> 102" by (simp add: q_def)
    have "\<bar>fl q - q\<bar> \<le> q / 2 ^ 53"
      using qlo qhi by (intro fl_error_small) simp_all
    then have eq: "q - q / 2 ^ 53 \<le> fl q" "fl q \<le> q + q / 2 ^ 53"
      by (simp_all only: abs_diff_le_iff)
    from eq en ez hi qhi
    have "r - (1 / 200 + 1 / 2 ^ 45) \<le> fl q \<and> fl q \<le> r + (1 / 200 + 1 / 2 ^ 45)"
      by (simp add: q_def)
    then have "\<bar>fl q - r\<bar> \<le> 1 / 200 + 1 / 2 ^ 45"
      by (simp only: abs_diff_le_iff)
    then show ?thesis by (simp add: out q_def)
  qed
qed

subsection \<open>Compliance rate\<close>

lemma find_not_None_list_ex: "(find P xs \<noteq> None) = list_ex P xs"
  by (auto simp: find_None_iff list_ex_iff)

lemma find_Some_list_ex: "(\<exists>y. find P xs = Some y) = list_ex P xs"
  using find_not_None_list_ex [of P xs] by auto

lemma length_compliantRentals:
  "length (compliantRentals month ps (activeRentalIds rs)) =
     length (filter (\<lambda>r. r_status r = Active \<and>
        list_ex (\<lambda>p. pay_rentalId p = r_id r \<and> pay_month p = month \<and> pay_status p = Paid) ps) rs)"
proof -
  have "length (compliantRentals month ps (activeRentalIds rs)) =
        length (filter (\<lambda>r. list_ex (\<lambda>p. pay_rentalId p = r_id r \<and> pay_month p = month \<and>
                                          pay_status p = Paid) ps)
                  (filter (\<lambda>r. r_status r = Active) rs))"
    by (simp add: compliantRentals_def activeRentalIds_def filter_map find_not_None_list_ex
          find_Some_list_ex comp_def)
  also have "\<dots> = length (filter (\<lambda>r. r_status r = Active \<and>
        list_ex (\<lambda>p. pay_rentalId p = r_id r \<and> pay_month p = month \<and> pay_status p = Paid) ps) rs)"
    by (simp add: conj_commute)
  finally show ?thesis .
qed

lemma complianceRate_counts:
  "complianceRate now s =
     (if filter (\<lambda>r. r_status r = Active) (rentals s) = [] then 0
      else fl (fl (of_nat (length (filter (\<lambda>r. r_status r = Active \<and>
                      list_ex (\<lambda>p. pay_rentalId p = r_id r \<and> pay_month p = currentMonth now \<and>
                                    pay_status p = Paid) (payments s)) (rentals s)))
                   / of_nat (length (filter (\<lambda>r. r_status r = Active) (rentals s)))) * 100))"
  by (simp add: complianceRate_def Let_def length_compliantRentals)

lemma currentMonth_ex_now: "currentMonth ex_now = ''2025-01''"
  by (simp add: currentMonth_def digit_char_def toISODate_def Let_def ex_now_def mk_date_def)

text \<open>The counts on the example stores with many active Rentals.\<close>

lemma filter_less_upt: "k \<le> n \<Longrightarrow> filter (\<lambda>i. i < k) [0..<n] = [0..<k]"
  by (induction n) (auto simp: le_Suc_eq)

lemma ex_id_inj: "(ex_id i = ex_id j) = (i = j)"
  by (auto simp: ex_id_def dest: arg_cong [where f = length])

lemma ex_many_active_counts:
  assumes "k \<le> n"
  shows "length (filter (\<lambda>r. r_status r = Active) (rentals (ex_many_active n k))) = n"
    and "length (filter (\<lambda>r. r_status r = Active \<and>
            list_ex (\<lambda>p. pay_rentalId p = r_id r \<and> pay_month p = ''2025-01'' \<and>
                          pay_status p = Paid) (payments (ex_many_active n k)))
           (rentals (ex_many_active n k))) = k"
    and "length (filter is_live (rentals (ex_many_active n k))) = n"
    and "length (filter (\<lambda>r. is_live r \<and>
            list_ex (\<lambda>p. pay_rentalId p = r_id r \<and> pay_month p = ''2025-01'' \<and>
                          pay_status p = Paid) (payments (ex_many_active n k)))
           (rentals (ex_many_active n k))) = k"
proof -
  have paid: "list_ex (\<lambda>p. pay_rentalId p = ex_id i \<and> pay_month p = ''2025-01'' \<and>
                            pay_status p = Paid)
                (map (\<lambda>j. ex_payment (ex_id j) (ex_id j) ''2025-01'') [0..<k]) = (i < k)" for i
    by (auto simp: list_ex_iff ex_payment_def ex_id_inj)
  show "length (filter (\<lambda>r. r_status r = Active) (rentals (ex_many_active n k))) = n"
    by (simp add: ex_many_active_def ex_store_def ex_rental_def filter_map comp_def)
  show "length (filter is_live (rentals (ex_many_active n k))) = n"
    by (simp add: ex_many_active_def ex_store_def ex_rental_def filter_map comp_def is_live_def)
  show "length (filter (\<lambda>r. r_status r = Active \<and>
            list_ex (\<lambda>p. pay_rentalId p = r_id r \<and> pay_month p = ''2025-01'' \<and>
                          pay_status p = Paid) (payments (ex_many_active n k)))
           (rentals (ex_many_active n k))) = k"
    using assms
    by (simp add: ex_many_active_def ex_store_def filter_map comp_def)
       (simp add: ex_rental_def paid filter_less_upt)
  show "length (filter (\<lambda>r. is_live r \<and>
            list_ex (\<lambda>p. pay_rentalId p = r_id r \<and> pay_month p = ''2025-01'' \<and>
                          pay_status p = Paid) (payments (ex_many_active n k)))
           (rentals (ex_many_active n k))) = k"
    using assms
    by (simp add: ex_many_active_def ex_store_def filter_map comp_def is_live_def)
       (simp add: ex_rental_def paid filter_less_upt)
qed

text \<open>
  C9 (as amended). The ministry compliance rate is computed from the Rentals with status
  exactly active: it is \<^verbatim>\<open>(paid / active) * 100\<close> in double-precision arithmetic, where
  \<open>active\<close> counts those Rentals and \<open>paid\<close> those of them that have a paid Payment for
  the current month, and it is 0 when no Rental is active. With fewer than \<open>2 ^ 32\<close>
  Rentals (the most a JavaScript array holds) it is the percentage of the active Rentals
  that have paid, up to a rounding error below \<open>2 ^ - 45\<close>. Rentals in renewal\_pending or
  terminating are not counted on either side of the quotient: the rate of a store is the
  rate of the store with only its active Rentals. Computing the dashboard leaves the store
  as it is; its response carries \<^verbatim>\<open>Math.round(rate * 100) / 100\<close>, again in doubles, which
  is within half a hundredth of the rate, up to the same rounding error.
\<close>

theorem complianceRate_active_only:
  "complianceRate now s =
     (if filter (\<lambda>r. r_status r = Active) (rentals s) = [] then 0
      else fl (fl (of_nat (length (filter (\<lambda>r. r_status r = Active \<and>
                      list_ex (\<lambda>p. pay_rentalId p = r_id r \<and> pay_month p = currentMonth now \<and>
                                    pay_status p = Paid) (payments s)) (rentals s)))
                   / of_nat (length (filter (\<lambda>r. r_status r = Active) (rentals s)))) * 100)) \<and>
   (length (rentals s) < 2 ^ 32 \<and> filter (\<lambda>r. r_status r = Active) (rentals s) \<noteq> [] \<longrightarrow>
      \<bar>complianceRate now s -
       100 * of_nat (length (filter (\<lambda>r. r_status r = Active \<and>
                      list_ex (\<lambda>p. pay_rentalId p = r_id r \<and> pay_month p = currentMonth now \<and>
                                    pay_status p = Paid) (payments s)) (rentals s)))
           / of_nat (length (filter (\<lambda>r. r_status r = Active) (rentals s)))\<bar> \<le> 1 / 2 ^ 45) \<and>
   complianceRate now (s\<lparr>rentals := filter (\<lambda>r. r_status r = Active) (rentals s)\<rparr>)
     = complianceRate now s \<and>
   snd (ministry_dashboard cred now s) = s \<and>
   (ministry_dashboard cred now s = (Inr d, s') \<longrightarrow>
      m_complianceRate d = round2 (complianceRate now s) \<and>
      m_activeRentals d = length (filter (\<lambda>r. r_status r = Active) (rentals s)) \<and>
      (length (rentals s) < 2 ^ 32 \<longrightarrow>
         \<bar>m_complianceRate d - complianceRate now s\<bar> \<le> 1 / 200 + 1 / 2 ^ 45))"
proof -
  define a where "a = length (filter (\<lambda>r. r_status r = Active) (rentals s))"
  define c where "c = length (filter (\<lambda>r. r_status r = Active \<and>
                      list_ex (\<lambda>p. pay_rentalId p = r_id r \<and> pay_month p = currentMonth now \<and>
                                    pay_status p = Paid) (payments s)) (rentals s))"
  have ca: "c \<le> a"
  proof -
    have "c = length (filter (\<lambda>r. list_ex (\<lambda>p. pay_rentalId p = r_id r \<and>
                        pay_month p = currentMonth now \<and> pay_status p = Paid) (payments s))
                (filter (\<lambda>r. r_status r = Active) (rentals s)))"
      by (simp add: c_def conj_commute)
    also have "\<dots> \<le> a" unfolding a_def by (rule length_filter_le)
    finally show ?thesis .
  qed
  have al: "a \<le> length (rentals s)" unfolding a_def by (rule length_filter_le)
  have a0: "(a = 0) = (filter (\<lambda>r. r_status r = Active) (rentals s) = [])"
    by (simp add: a_def)
  have rate: "complianceRate now s = (if a = 0 then 0 else fl (fl (of_nat c / of_nat a) * 100))"
    by (simp add: complianceRate_counts a_def c_def)
  have c1: "complianceRate now s =
     (if filter (\<lambda>r. r_status r = Active) (rentals s) = [] then 0
      else fl (fl (of_nat c / of_nat a) * 100))"
    by (simp add: rate a0)
  have c2: "\<bar>complianceRate now s - 100 * of_nat c / of_nat a\<bar> \<le> 1 / 2 ^ 45"
    if "length (rentals s) < 2 ^ 32 \<and> filter (\<lambda>r. r_status r = Active) (rentals s) \<noteq> []"
  proof -
    from that a0 have "0 < a" by simp
    moreover from that al have "a < 2 ^ 32" by simp
    ultimately show ?thesis
      using double_percentage_error(1) [OF ca] by (simp add: rate)
  qed
  have rng: "(complianceRate now s = 0 \<or> 1 / 2 ^ 27 \<le> complianceRate now s) \<and>
             complianceRate now s \<le> 101"
    if small: "length (rentals s) < 2 ^ 32"
  proof (cases "a = 0")
    case True
    then show ?thesis by (simp add: rate)
  next
    case False
    then have a1: "0 < a" by simp
    from small al have a2: "a < 2 ^ 32" by simp
    from double_percentage_error(2) [OF ca a1 a2] double_percentage_error(3) [OF ca a1 a2] False
    show ?thesis by (auto simp: rate fl_def)
  qed
  have "activeRentalIds (filter (\<lambda>r. r_status r = Active) rs) = activeRentalIds rs" for rs
    by (simp add: activeRentalIds_def)
  then have c3: "complianceRate now (s\<lparr>rentals := filter (\<lambda>r. r_status r = Active) (rentals s)\<rparr>)
     = complianceRate now s"
    by (simp add: complianceRate_def Let_def)
  have c4: "snd (ministry_dashboard cred now s) = s"
    by (simp add: ministry_dashboard_def split: credential.splits)
  have c5: "m_complianceRate d = round2 (complianceRate now s) \<and>
      m_activeRentals d = length (filter (\<lambda>r. r_status r = Active) (rentals s)) \<and>
      (length (rentals s) < 2 ^ 32 \<longrightarrow>
         \<bar>m_complianceRate d - complianceRate now s\<bar> \<le> 1 / 200 + 1 / 2 ^ 45)"
    if ok: "ministry_dashboard cred now s = (Inr d, s')"
  proof -
    from ok have r: "m_complianceRate d = round2 (complianceRate now s)"
      by (auto simp: ministry_dashboard_def split: credential.splits if_splits)
    from ok have n: "m_activeRentals d = length (filter (\<lambda>r. r_status r = Active) (rentals s))"
      by (auto simp: ministry_dashboard_def split: credential.splits if_splits)
    have "\<bar>round2 (complianceRate now s) - complianceRate now s\<bar> \<le> 1 / 200 + 1 / 2 ^ 45"
      if "length (rentals s) < 2 ^ 32"
      using rng [OF that] by (intro round2_error) simp_all
    with r n show ?thesis by simp
  qed
  from c1 c2 c3 c4 c5 show ?thesis
    unfolding a_def c_def by blast
qed

text \<open>
  On the example store with 160 active Rentals of which 23 have paid January 2025: the
  rate is the double written 14.374999999999998, within the error bound of the percentage
  14.375, and the response carries the double written 14.37 (which is \<open>fl (1437 / 100)\<close>),
  not 14.38.
\<close>

theorem complianceRate_active_only_witness:
  "length (rentals (ex_many_active 160 23)) < 2 ^ 32 \<and>
   complianceRate ex_now (ex_many_active 160 23) = 8092405580431359 / 562949953421312 \<and>
   \<bar>complianceRate ex_now (ex_many_active 160 23) - 100 * 23 / 160\<bar> \<le> 1 / 2 ^ 45 \<and>
   snd (ministry_dashboard (Token ''m1'' ''ministry'') ex_now (ex_many_active 160 23))
     = ex_many_active 160 23 \<and>
   (case fst (ministry_dashboard (Token ''m1'' ''ministry'') ex_now (ex_many_active 160 23)) of
      Inl e \<Rightarrow> False
    | Inr d \<Rightarrow> m_activeRentals d = 160 \<and> m_complianceRate d = fl (1437 / 100) \<and>
               m_complianceRate d \<noteq> fl (1438 / 100))"
proof -
  let ?s = "ex_many_active 160 23"
  let ?d = "projr (fst (ministry_dashboard (Token ''m1'' ''ministry'') ex_now ?s))"
  have ok: "ministry_dashboard (Token ''m1'' ''ministry'') ex_now ?s = (Inr ?d, ?s)"
    by (simp add: ministry_dashboard_def)
  have len: "length (rentals ?s) < 2 ^ 32"
    by (simp add: ex_many_active_def ex_store_def)
  have le: "(23::nat) \<le> 160" by simp
  note n = ex_many_active_counts [OF le]
  from n(1) have ne: "filter (\<lambda>r. r_status r = Active) (rentals ?s) \<noteq> []"
    by (auto simp del: length_0_conv simp add: length_0_conv [symmetric])
  note inst = complianceRate_active_only
    [where now = ex_now and s = ?s and cred = "Token ''m1'' ''ministry''" and d = ?d and s' = ?s]
  from inst [THEN conjunct1] ne
  have "complianceRate ex_now ?s = fl (fl (23 / 160) * 100)"
    by (simp add: currentMonth_ex_now n)
  then have rate: "complianceRate ex_now ?s = 8092405580431359 / 562949953421312"
    by (simp add: fl_defs)
  from inst [THEN conjunct2, THEN conjunct1] len ne
  have err: "\<bar>complianceRate ex_now ?s - 100 * 23 / 160\<bar> \<le> 1 / 2 ^ 45"
    by (simp add: currentMonth_ex_now n)
  from inst [THEN conjunct2, THEN conjunct2, THEN conjunct2, THEN conjunct1]
  have same: "snd (ministry_dashboard (Token ''m1'' ''ministry'') ex_now ?s) = ?s" .
  from inst [THEN conjunct2, THEN conjunct2, THEN conjunct2, THEN conjunct2] ok
  have resp: "m_complianceRate ?d = round2 (complianceRate ex_now ?s)" "m_activeRentals ?d = 160"
    by (simp_all add: n)
  have r2: "round2 (8092405580431359 / 562949953421312) = fl (1437 / 100)"
    by (simp add: round2_def fl_defs)
  have ne2: "fl (1437 / 100) \<noteq> fl (1438 / 100)"
    by (simp add: fl_defs)
  from resp(1) rate r2 have resp': "m_complianceRate ?d = fl (1437 / 100)" by simp
  have isr: "fst (ministry_dashboard (Token ''m1'' ''ministry'') ex_now ?s) = Inr ?d"
    by (simp add: ministry_dashboard_def)
  have last: "(case fst (ministry_dashboard (Token ''m1'' ''ministry'') ex_now ?s) of
      Inl e \<Rightarrow> False
    | Inr d \<Rightarrow> m_activeRentals d = 160 \<and> m_complianceRate d = fl (1437 / 100) \<and>
               m_complianceRate d \<noteq> fl (1438 / 100))"
  proof (subst isr, simp only: sum.case, intro conjI)
    show "m_activeRentals ?d = 160" by (rule resp(2))
    show "m_complianceRate ?d = fl (1437 / 100)" by (rule resp')
    show "m_complianceRate ?d \<noteq> fl (1438 / 100)" by (simp only: resp') (rule ne2)
  qed
  from len rate err same last show ?thesis
    by (intro conjI)
qed

text \<open>
  The claim as stated fails. On the store with the active, paid rental \<open>r1\<close> and the
  terminating, unpaid rental \<open>r2\<close>, both Rentals are live and one of them has a paid
  Payment for the current month, so the fraction of the claim is 1/2 (50 percent), while the
  code counts the one active Rental only and reports 100. On the store with 160 active
  Rentals of which 23 have paid, the fraction of the claim is 23/160 and its percentage
  14.375, while the code's doubles give 14.374999999999998.
\<close>

theorem complianceRate_live_counterexample:
  "length (filter is_live (rentals ex_two_tenancies)) = 2 \<and>
   spec_compliance_fraction ex_now ex_two_tenancies = 1 / 2 \<and>
   complianceRate ex_now ex_two_tenancies = 100 \<and>
   fst (ministry_dashboard (Token ''m1'' ''ministry'') ex_now ex_two_tenancies)
     = Inr \<lparr>totalTenants = 2, totalLandlords = 1, m_activeRentals = 1, totalProperties = 2,
            totalRevenue = 15000, m_complianceRate = 100\<rparr> \<and>
   spec_compliance_fraction ex_now (ex_many_active 160 23) = 23 / 160 \<and>
   complianceRate ex_now (ex_many_active 160 23) = 8092405580431359 / 562949953421312 \<and>
   (8092405580431359 / 562949953421312 :: rat) \<noteq> 100 * (23 / 160)"
proof -
  have r: "complianceRate ex_now ex_two_tenancies = 100"
    by (simp add: complianceRate_def compliantRentals_def activeRentalIds_def Let_def
          currentMonth_ex_now)
       (simp add: ex_defs ex_two_tenancies_def fl_defs)
  have l: "length (filter is_live (rentals ex_two_tenancies)) = 2"
    by (simp add: is_live_def ex_defs ex_two_tenancies_def)
  have f: "spec_compliance_fraction ex_now ex_two_tenancies = 1 / 2"
    by (simp add: spec_compliance_fraction_def currentMonth_ex_now)
       (simp add: is_live_def ex_defs ex_two_tenancies_def)
  have "round2 100 = 100"
    by (simp add: round2_def fl_defs)
  then have d: "fst (ministry_dashboard (Token ''m1'' ''ministry'') ex_now ex_two_tenancies)
     = Inr \<lparr>totalTenants = 2, totalLandlords = 1, m_activeRentals = 1, totalProperties = 2,
            totalRevenue = 15000, m_complianceRate = 100\<rparr>"
    by (simp add: ministry_dashboard_def r) (simp add: ex_defs ex_two_tenancies_def)
  have le: "(23::nat) \<le> 160" by simp
  note n = ex_many_active_counts [OF le]
  have f2: "spec_compliance_fraction ex_now (ex_many_active 160 23) = 23 / 160"
    by (simp add: spec_compliance_fraction_def currentMonth_ex_now n)
  from n(1) have ne: "filter (\<lambda>r. r_status r = Active) (rentals (ex_many_active 160 23)) \<noteq> []"
    by (auto simp del: length_0_conv simp add: length_0_conv [symmetric])
  have "complianceRate ex_now (ex_many_active 160 23) = fl (fl (23 / 160) * 100)"
    using ne by (simp add: complianceRate_counts currentMonth_ex_now n)
  then have r2: "complianceRate ex_now (ex_many_active 160 23)
                   = 8092405580431359 / 562949953421312"
    by (simp add: fl_defs)
  from l f r d f2 r2 show ?thesis by simp
qed

subsection \<open>Preconditions of a payment\<close>



end
